theory Spec2Isabelle
  imports Main
begin

section \<open>Backend: the session registry and the lifecycle endpoints (server.js)\<close>

subsection \<open>Data model\<close>

text \<open>
  A registry entry, as the success callback of \<^verbatim>\<open>/api/CreateStreamSession\<close> writes it:
  \<^verbatim>\<open>{ StreamGroupId: streamGroupId, StreamSessionArn: data.Arn, Timestamp: Date.now() }\<close>.
  A field that is \<^verbatim>\<open>undefined\<close> in JavaScript is \<open>None\<close>; \<^verbatim>\<open>Date.now()\<close> is an integer
  number of milliseconds.
\<close>

record connection =
  StreamGroupId :: "string option"
  StreamSessionArn :: "string option"
  Timestamp :: int

text \<open>
  \<^verbatim>\<open>const connectionDatabase = {}\<close>: the own properties of the object are the entries.
\<close>

type_synonym database = "string \<rightharpoonup> connection"

text \<open>
  The object literal inherits from \<^verbatim>\<open>Object.prototype\<close>, so reading
  \<^verbatim>\<open>connectionDatabase[k]\<close> for a key that is not an own property yields the inherited
  member when \<open>k\<close> names one, and \<^verbatim>\<open>undefined\<close> otherwise.
\<close>

definition object_prototype_keys :: "string list" where
  "object_prototype_keys =
     [''constructor'', ''__proto__'', ''hasOwnProperty'', ''isPrototypeOf'',
      ''propertyIsEnumerable'', ''toLocaleString'', ''toString'', ''valueOf'',
      ''__defineGetter__'', ''__defineSetter__'', ''__lookupGetter__'', ''__lookupSetter__'']"

text \<open>
  What \<^verbatim>\<open>const connectionData = req.body.Token && connectionDatabase[req.body.Token]\<close>
  can hold: a falsy value (the token itself when it is missing or empty, or \<^verbatim>\<open>undefined\<close>
  when no property is found), an entry, or an inherited member of \<^verbatim>\<open>Object.prototype\<close>
  (a function or the prototype object: truthy, and without any of the entry's fields).
\<close>

datatype connectionData = Falsy | Entry connection | PrototypeMember

definition truthy :: "string option \<Rightarrow> bool" where
  "truthy v = (case v of None \<Rightarrow> False | Some s \<Rightarrow> s \<noteq> [])"

definition property :: "database \<Rightarrow> string \<Rightarrow> connectionData" where
  "property db k =
     (case db k of
        Some c \<Rightarrow> Entry c
      | None \<Rightarrow> if k \<in> set object_prototype_keys then PrototypeMember else Falsy)"

definition lookup :: "database \<Rightarrow> string option \<Rightarrow> connectionData" where
  "lookup db token =
     (case token of
        None \<Rightarrow> Falsy
      | Some t \<Rightarrow> if t = [] then Falsy else property db t)"

text \<open>
  \<^verbatim>\<open>delete connectionDatabase[req.body.Token]\<close>: the property key of a missing token is the
  string \<^verbatim>\<open>undefined\<close>.
\<close>

definition delete_property :: "database \<Rightarrow> string option \<Rightarrow> database" where
  "delete_property db token =
     (case token of
        None \<Rightarrow> db(''undefined'' := None)
      | Some t \<Rightarrow> db(t := None))"

fun data_StreamGroupId :: "connectionData \<Rightarrow> string option" where
  "data_StreamGroupId (Entry c) = StreamGroupId c"
| "data_StreamGroupId _ = None"

fun data_StreamSessionArn :: "connectionData \<Rightarrow> string option" where
  "data_StreamSessionArn (Entry c) = StreamSessionArn c"
| "data_StreamSessionArn _ = None"

text \<open>
  The registry together with the pending \<^verbatim>\<open>setTimeout\<close> removals (due time and token).
\<close>

record server =
  connectionDatabase :: database
  timers :: "(int \<times> string) list"

subsection \<open>Requests, responses, configuration\<close>

type_synonym json = string

text \<open>
  The fields the handlers read from \<^verbatim>\<open>req\<close>: \<^verbatim>\<open>req.correlationId\<close> and the members of
  \<^verbatim>\<open>req.body\<close>, each \<open>None\<close> when the member is absent. The members have their documented
  types: a token, an identifier and a stream group are strings, the other members JSON text.
\<close>

record request =
  correlationId :: string
  Token :: "string option"
  body_StreamGroupId :: "string option"
  UserId :: "string option"
  SignalRequest :: "json option"
  ApplicationIdentifier :: "string option"
  Locations :: "json option"
  AdditionalLaunchArgs :: "json option"
  AdditionalEnvironmentVariables :: "json option"

text \<open>
  An HTTP response: the status code (200 unless \<^verbatim>\<open>res.status\<close> was called) and the
  members of the JSON object passed to \<^verbatim>\<open>res.json\<close>, in order; a member whose value is
  \<^verbatim>\<open>undefined\<close> is not serialised.
\<close>

record response =
  status :: nat
  body :: "(string \<times> string) list"

definition json_member :: "string \<Rightarrow> string option \<Rightarrow> (string \<times> string) list" where
  "json_member k v = (case v of None \<Rightarrow> [] | Some s \<Rightarrow> [(k, s)])"

text \<open>
  \<^verbatim>\<open>config.js\<close>, \<^verbatim>\<open>process.env\<close>, \<^verbatim>\<open>process.argv\<close> and the constant \<^verbatim>\<open>IS_LOCAL\<close>.
  \<open>json_set\<close> stands for the library calls of the protocol override,
  \<^verbatim>\<open>JSON.parse(s)\<close>, the assignment of \<^verbatim>\<open>webSdkProtocolUrl\<close> and \<^verbatim>\<open>JSON.stringify\<close>:
  it is \<open>None\<close> when one of them throws. \<open>stack\<close> is the stack trace of an \<^verbatim>\<open>Error\<close>
  with the given message.
\<close>

record env =
  IS_LOCAL :: bool
  STREAM_GROUP_ID :: "string option"
  NODE_ENV :: "string option"
  argv :: "string list"
  GENERAL_ERROR_STATUS_CODE :: nat
  STREAM_CONNECTION_TIMEOUT_SECONDS :: int
  json_set :: "json \<Rightarrow> string \<Rightarrow> json option"
  stack :: "string \<Rightarrow> string"

definition generalErrorStatusCode :: nat where
  "generalErrorStatusCode = 502"

subsection \<open>The streaming provider\<close>

record session_request =
  Identifier :: "string option"
  StreamSessionIdentifier :: "string option"

record connection_request = session_request +
  rq_SignalRequest :: "json option"

record start_request =
  start_Identifier :: "string option"
  rq_AdditionalLaunchArgs :: "json option"
  rq_AdditionalEnvironmentVariables :: "json option"
  rq_UserId :: "string option"
  Protocol :: string
  start_SignalRequest :: "json option"
  ConnectionTimeoutSeconds :: int
  SessionLengthSeconds :: int
  rq_ApplicationIdentifier :: "string option"
  rq_Locations :: "json option"

record stream_session =
  Status :: "string option"
  SignalResponse :: "json option"

text \<open>
  A provider call either fails with an error (its \<^verbatim>\<open>message\<close>) or succeeds with data.
\<close>

datatype 'a outcome = Failed string | Succeeded 'a

record provider =
  startStreamSession :: "start_request \<Rightarrow> string option outcome"
  getStreamSession :: "session_request \<Rightarrow> stream_session outcome"
  createStreamSessionConnection :: "connection_request \<Rightarrow> json option outcome"
  terminateStreamSession :: "session_request \<Rightarrow> unit outcome"

datatype provider_call =
    StartStreamSession start_request
  | GetStreamSession session_request
  | CreateStreamSessionConnection connection_request
  | TerminateStreamSession session_request

text \<open>
  What one request does: the response sent, the server state afterwards, and the
  provider calls issued.
\<close>

record result =
  reply :: response
  state :: server
  calls :: "provider_call list"

subsection \<open>\<^verbatim>\<open>POST /api/CreateStreamSession\<close>\<close>

text \<open>
  The handlers are modelled from the point where Express calls them. The route is registered
  as \<^verbatim>\<open>app.post('/api/CreateStreamSession', function (req, res) {...})\<close>: the array
  \<^verbatim>\<open>validateStreamSession\<close> defined earlier in the file is passed to no route, and the handler
  itself checks only that a stream group is configured when \<^verbatim>\<open>IS_LOCAL\<close> is false.
\<close>

definition requestData :: "env \<Rightarrow> string option \<Rightarrow> request \<Rightarrow> start_request" where
  "requestData e streamGroupId req =
     \<lparr> start_Identifier = streamGroupId,
       rq_AdditionalLaunchArgs = AdditionalLaunchArgs req,
       rq_AdditionalEnvironmentVariables = AdditionalEnvironmentVariables req,
       rq_UserId = UserId req,
       Protocol = ''WebRTC'',
       start_SignalRequest = SignalRequest req,
       ConnectionTimeoutSeconds = STREAM_CONNECTION_TIMEOUT_SECONDS e,
       SessionLengthSeconds = 3600,
       rq_ApplicationIdentifier = ApplicationIdentifier req,
       rq_Locations = Locations req \<rparr>"

text \<open>
  \<open>connectionId\<close> is the value of \<^verbatim>\<open>crypto.randomUUID()\<close> and \<open>now\<close> that of
  \<^verbatim>\<open>Date.now()\<close> in the success callback.
\<close>

definition CreateStreamSession ::
  "env \<Rightarrow> provider \<Rightarrow> string \<Rightarrow> int \<Rightarrow> server \<Rightarrow> request \<Rightarrow> result" where
  "CreateStreamSession e p connectionId now s req =
     (let streamGroupId = (if IS_LOCAL e then body_StreamGroupId req else STREAM_GROUP_ID e) in
      if \<not> IS_LOCAL e \<and> \<not> truthy streamGroupId then
        \<lparr> reply = \<lparr> status = 500,
                    body = [(''error'', ''Server Configuration Error''),
                            (''message'', ''STREAM_GROUP_ID not configured'')] \<rparr>,
          state = s, calls = [] \<rparr>
      else
        (case startStreamSession p (requestData e streamGroupId req) of
           Failed message \<Rightarrow>
             \<lparr> reply = \<lparr> status = GENERAL_ERROR_STATUS_CODE e, body = [(''error'', message)] \<rparr>,
               state = s,
               calls = [StartStreamSession (requestData e streamGroupId req)] \<rparr>
         | Succeeded Arn \<Rightarrow>
             \<lparr> reply = \<lparr> status = 200, body = [(''Token'', connectionId)] \<rparr>,
               state = \<lparr> connectionDatabase =
                           (connectionDatabase s)(connectionId \<mapsto>
                              \<lparr> StreamGroupId = streamGroupId,
                                StreamSessionArn = Arn,
                                Timestamp = now \<rparr>),
                         timers = timers s @ [(now + 24 * 60 * 60 * 1000, connectionId)] \<rparr>,
               calls = [StartStreamSession (requestData e streamGroupId req)] \<rparr>))"

text \<open>The \<^verbatim>\<open>setTimeout\<close> callback: \<^verbatim>\<open>delete connectionDatabase[connectionId]\<close>.\<close>

definition timeout_fired :: "string \<Rightarrow> server \<Rightarrow> server" where
  "timeout_fired connectionId s =
     s\<lparr> connectionDatabase := (connectionDatabase s)(connectionId := None) \<rparr>"

subsection \<open>\<^verbatim>\<open>POST /api/GetSignalResponse\<close>\<close>

fun decimal :: "nat \<Rightarrow> string" where
  "decimal n =
     (if n < 10 then [''0123456789'' ! n]
      else decimal (n div 10) @ [''0123456789'' ! (n mod 10)])"

declare decimal.simps [simp del]

text \<open>The template literal \<^verbatim>\<open>`/override_protocol.js?${Date.now()}`\<close>.\<close>

definition override_protocol_url :: "int \<Rightarrow> string" where
  "override_protocol_url now =
     ''/override_protocol.js?''
       @ (if now < 0 then ''-'' @ decimal (nat (- now)) else decimal (nat now))"

text \<open>
  The \<^verbatim>\<open>ACTIVE\<close> case: the provider's \<^verbatim>\<open>SignalResponse\<close>, rewritten when the server was
  started with \<^verbatim>\<open>--override_protocol\<close> and the rewriting does not throw.
\<close>

definition signalResponse :: "env \<Rightarrow> int \<Rightarrow> json option \<Rightarrow> json option" where
  "signalResponse e now payload =
     (if ''--override_protocol'' \<in> set (argv e) then
        (case payload of
           None \<Rightarrow> payload
         | Some s \<Rightarrow>
             (case json_set e s (override_protocol_url now) of
                None \<Rightarrow> payload
              | Some s' \<Rightarrow> Some s'))
      else payload)"

definition unhandled :: "env \<Rightarrow> request \<Rightarrow> string \<Rightarrow> response" where
  "unhandled e req message =
     \<lparr> status = generalErrorStatusCode,
       body = [(''error'', ''An error occurred while processing your request''),
               (''correlationId'', correlationId req),
               (''message'', message)]
              @ (if NODE_ENV e = Some ''development'' then [(''stack'', stack e message)] else []) \<rparr>"

text \<open>
  The comparison \<^verbatim>\<open>now - Timestamp > config.STREAM_CONNECTION_TIMEOUT_SECONDS * 1000\<close>, written
  out in the expiry check of the handler and again in the cleanup job.
\<close>

definition expired :: "env \<Rightarrow> int \<Rightarrow> connection \<Rightarrow> bool" where
  "expired e now c = (now - Timestamp c > STREAM_CONNECTION_TIMEOUT_SECONDS e * 1000)"

text \<open>
  \<open>now\<close> is \<^verbatim>\<open>Date.now()\<close> at the expiry check, \<open>later\<close> is \<^verbatim>\<open>Date.now()\<close> when the
  provider has answered. The guard \<^verbatim>\<open>!connectionData || !connectionData.StreamGroupId\<close>
  rejects a falsy value, an inherited member of \<^verbatim>\<open>Object.prototype\<close> (it has no
  \<^verbatim>\<open>StreamGroupId\<close>) and an entry whose \<^verbatim>\<open>StreamGroupId\<close> is missing or empty.
\<close>

definition connection_not_found :: response where
  "connection_not_found =
     \<lparr> status = 404,
       body = [(''error'', ''Connection data not found''),
               (''message'', ''Invalid token or missing stream group ID'')] \<rparr>"

definition GetSignalResponse ::
  "env \<Rightarrow> provider \<Rightarrow> int \<Rightarrow> int \<Rightarrow> server \<Rightarrow> request \<Rightarrow> result" where
  "GetSignalResponse e p now later s req =
     (case lookup (connectionDatabase s) (Token req) of
        Falsy \<Rightarrow> \<lparr> reply = connection_not_found, state = s, calls = [] \<rparr>
      | PrototypeMember \<Rightarrow> \<lparr> reply = connection_not_found, state = s, calls = [] \<rparr>
      | Entry c \<Rightarrow>
          if \<not> truthy (StreamGroupId c) then
            \<lparr> reply = connection_not_found, state = s, calls = [] \<rparr>
          else if expired e now c then
            \<lparr> reply = \<lparr> status = 404,
                        body = [(''error'', ''Connection token expired''),
                                (''correlationId'', correlationId req)] \<rparr>,
              state = s, calls = [] \<rparr>
          else
            (let rq = \<lparr> Identifier = StreamGroupId c,
                        StreamSessionIdentifier = StreamSessionArn c \<rparr> in
             case getStreamSession p rq of
               Failed message \<Rightarrow>
                 \<lparr> reply = unhandled e req (''Failed to get stream session: '' @ message),
                   state = s, calls = [GetStreamSession rq] \<rparr>
             | Succeeded streamSessionData \<Rightarrow>
                 if Status streamSessionData = Some ''ACTIVATING'' then
                   \<lparr> reply = \<lparr> status = 200, body = [(''SignalResponse'', '''')] \<rparr>,
                     state = s, calls = [GetStreamSession rq] \<rparr>
                 else if Status streamSessionData = Some ''ACTIVE'' then
                   \<lparr> reply = \<lparr> status = 200,
                               body = json_member ''SignalResponse''
                                        (signalResponse e later
                                           (SignalResponse streamSessionData)) \<rparr>,
                     state = s, calls = [GetStreamSession rq] \<rparr>
                 else
                   \<lparr> reply = \<lparr> status = 404,
                               body = [(''error'', ''Unexpected stream status'')]
                                      @ json_member ''status'' (Status streamSessionData)
                                      @ [(''correlationId'', correlationId req)] \<rparr>,
                     state = s, calls = [GetStreamSession rq] \<rparr>))"

subsection \<open>\<^verbatim>\<open>POST /api/ReconnectStreamSession\<close>\<close>

definition ReconnectStreamSession :: "provider \<Rightarrow> server \<Rightarrow> request \<Rightarrow> result" where
  "ReconnectStreamSession p s req =
     (let connectionData = lookup (connectionDatabase s) (Token req) in
      if connectionData = Falsy then
        \<lparr> reply = \<lparr> status = 404, body = [] \<rparr>, state = s, calls = [] \<rparr>
      else
        (let rq = \<lparr> Identifier = data_StreamGroupId connectionData,
                    StreamSessionIdentifier = data_StreamSessionArn connectionData,
                    rq_SignalRequest = SignalRequest req \<rparr> in
         case createStreamSessionConnection p rq of
           Failed message \<Rightarrow>
             \<lparr> reply = \<lparr> status = generalErrorStatusCode, body = [] \<rparr>,
               state = s, calls = [CreateStreamSessionConnection rq] \<rparr>
         | Succeeded answer \<Rightarrow>
             \<lparr> reply = \<lparr> status = 200, body = json_member ''SignalResponse'' answer \<rparr>,
               state = s, calls = [CreateStreamSessionConnection rq] \<rparr>))"

subsection \<open>\<^verbatim>\<open>POST /api/DestroyStreamSession\<close>\<close>

definition DestroyStreamSession :: "provider \<Rightarrow> server \<Rightarrow> request \<Rightarrow> result" where
  "DestroyStreamSession p s req =
     (let connectionData = lookup (connectionDatabase s) (Token req) in
      if connectionData = Falsy then
        \<lparr> reply = \<lparr> status = 404, body = [] \<rparr>, state = s, calls = [] \<rparr>
      else
        (let rq = \<lparr> Identifier = data_StreamGroupId connectionData,
                    StreamSessionIdentifier = data_StreamSessionArn connectionData \<rparr> in
         case terminateStreamSession p rq of
           Failed message \<Rightarrow>
             \<lparr> reply = \<lparr> status = generalErrorStatusCode, body = [] \<rparr>,
               state = s, calls = [TerminateStreamSession rq] \<rparr>
         | Succeeded data \<Rightarrow>
             \<lparr> reply = \<lparr> status = 200, body = [] \<rparr>,
               state = s\<lparr> connectionDatabase :=
                            delete_property (connectionDatabase s) (Token req) \<rparr>,
               calls = [TerminateStreamSession rq] \<rparr>))"

subsection \<open>The token cleanup job\<close>

definition cleanup :: "env \<Rightarrow> int \<Rightarrow> server \<Rightarrow> server" where
  "cleanup e now s =
     s\<lparr> connectionDatabase :=
          (\<lambda>token. case connectionDatabase s token of
                      None \<Rightarrow> None
                    | Some data \<Rightarrow> if expired e now data then None else Some data) \<rparr>"

section \<open>Browser: the signalling flows (stream.js)\<close>

text \<open>
  \<^verbatim>\<open>appStartStreaming\<close> and \<^verbatim>\<open>appReconnectStreaming\<close> are each one sequential chain of
  awaited steps inside \<^verbatim>\<open>try\<close>/\<^verbatim>\<open>catch\<close>. A run is recorded as the list of the effects it
  has on the page, on the peer object \<^verbatim>\<open>window.myGameLiftStreams\<close> and on the network, in
  order.
\<close>

datatype event =
    Panel string
  | Close
  | LoadingStart
  | LoadingStop
  | SignalRequestGenerated
  | SignalResponseProcessed
  | Post string
  | QueryParams
  | ReconnectLinks bool
  | Fullscreen
  | AudioPlay
  | AudioRemove

text \<open>
  The statements of the two functions that can throw: \<^verbatim>\<open>getQueryParams().get('token')\<close>, which
  \<^verbatim>\<open>appReconnectStreaming\<close> evaluates before its \<^verbatim>\<open>try\<close> block (\<open>ReadToken\<close>); a DOM lookup that
  finds no element (\<open>MetricsButton\<close>, \<open>SetupFields\<close>, \<open>Layout\<close>); \<^verbatim>\<open>JSON.parse\<close> of a form
  field (\<open>SetupFields\<close>, \<open>SetQueryParams\<close>); a call of the streaming SDK on the peer object
  (\<open>GenerateSignalRequest\<close>, \<open>ProcessSignalResponse\<close>, and \<open>ClosePeer\<close> for the \<^verbatim>\<open>close()\<close> of the
  \<^verbatim>\<open>catch\<close> blocks); a failed \<^verbatim>\<open>doPost\<close> (\<open>PostCreate\<close>, \<open>PostReconnect\<close>). The page helpers
  \<^verbatim>\<open>appShowPanel\<close>, \<^verbatim>\<open>appShowReconnectLinks\<close>, \<^verbatim>\<open>LoadingScreenStart\<close> and \<^verbatim>\<open>LoadingScreenStop\<close>
  (the last two catch their own errors) are effects that return.
\<close>

datatype stage =
    ReadToken
  | MetricsButton
  | GenerateSignalRequest
  | SetupFields
  | PostCreate
  | ProcessSignalResponse
  | SetQueryParams
  | Layout
  | PostReconnect
  | ClosePeer

text \<open>
  One \<^verbatim>\<open>doPost('/api/GetSignalResponse', token)\<close>: it throws, or it returns an object whose
  \<^verbatim>\<open>SignalResponse\<close> member is a string or is missing.
\<close>

datatype poll = Rejected | Answered "string option"

text \<open>
  What the page and the outside world decide during one run: the result of
  \<^verbatim>\<open>handleOrientation()\<close>, the user-agent test for WebKit, the result of \<^verbatim>\<open>checkIfMobile()\<close>,
  whether \<^verbatim>\<open>window.myGameLiftStreams\<close> holds an object (\<^verbatim>\<open>handleEndGameAndViewMetrics\<close> sets it
  to \<^verbatim>\<open>null\<close>), which stages throw, and the answers to the successive polls.
\<close>

record browser =
  landscape :: bool
  webkit :: bool
  mobile :: bool
  peer :: bool
  throws :: "stage \<Rightarrow> bool"
  answers :: "poll list"

text \<open>
  A method call on \<^verbatim>\<open>window.myGameLiftStreams\<close> is not guarded in either function: it throws
  a \<^verbatim>\<open>TypeError\<close> when the object is \<^verbatim>\<open>null\<close>, and otherwise when the SDK's method does.
\<close>

definition sdk_throws :: "browser \<Rightarrow> stage \<Rightarrow> bool" where
  "sdk_throws b st = (if peer b then throws b st else True)"

datatype completion = Completed | Returned | Thrown

text \<open>
  \<^verbatim>\<open>while (!signalResponse.length) { await sleep; signalResponse = (await doPost(...)).SignalResponse; }\<close>
  The loop has no bound of its own: when the answers observed so far are all empty it is
  still polling, and the run has no result yet (\<open>None\<close>). A missing \<^verbatim>\<open>SignalResponse\<close> makes
  the loop condition throw.
\<close>

fun poll_loop :: "poll list \<Rightarrow> event list \<Rightarrow> (completion \<times> event list) option" where
  "poll_loop [] t = None"
| "poll_loop (Rejected # rest) t = Some (Thrown, t @ [Post ''/api/GetSignalResponse''])"
| "poll_loop (Answered None # rest) t = Some (Thrown, t @ [Post ''/api/GetSignalResponse''])"
| "poll_loop (Answered (Some answer) # rest) t =
     (if answer = [] then poll_loop rest (t @ [Post ''/api/GetSignalResponse''])
      else Some (Completed, t @ [Post ''/api/GetSignalResponse'']))"

text \<open>The \<^verbatim>\<open>try\<close> block of \<^verbatim>\<open>appStartStreaming\<close>: how it ends and what it did until then.\<close>

definition start_try :: "browser \<Rightarrow> (completion \<times> event list) option" where
  "start_try b =
     (if \<not> landscape b then Some (Returned, [])
      else
        (let t1 = (if webkit b then [AudioPlay] else []) @ [Panel ''appConnecting''] in
         if throws b MetricsButton then Some (Thrown, t1)
         else if sdk_throws b GenerateSignalRequest then Some (Thrown, t1 @ [LoadingStart])
         else if throws b SetupFields then
           Some (Thrown, t1 @ [LoadingStart, SignalRequestGenerated])
         else if throws b PostCreate then
           Some (Thrown, t1 @ [LoadingStart, SignalRequestGenerated,
                               Post ''/api/CreateStreamSession''])
         else
           (case poll_loop (answers b)
                   (t1 @ [LoadingStart, SignalRequestGenerated,
                          Post ''/api/CreateStreamSession'']) of
              None \<Rightarrow> None
            | Some (Thrown, t2) \<Rightarrow> Some (Thrown, t2)
            | Some (_, t2) \<Rightarrow>
                if sdk_throws b ProcessSignalResponse then Some (Thrown, t2)
                else if throws b SetQueryParams then
                  Some (Thrown, t2 @ [SignalResponseProcessed, LoadingStop])
                else if throws b Layout then
                  Some (Thrown, t2 @ [SignalResponseProcessed, LoadingStop, QueryParams,
                                      ReconnectLinks True, Panel ''appStreaming''])
                else
                  Some (Completed,
                        t2 @ [SignalResponseProcessed, LoadingStop, QueryParams,
                              ReconnectLinks True, Panel ''appStreaming'']
                           @ (if mobile b then [Fullscreen] else [])))))"

text \<open>
  The \<^verbatim>\<open>catch\<close> block of both functions: \<^verbatim>\<open>LoadingScreenStop()\<close>, then
  \<^verbatim>\<open>window.myGameLiftStreams.close()\<close>, then \<^verbatim>\<open>appShowPanel\<close> of the error panel. When
  \<^verbatim>\<open>close()\<close> throws, the exception leaves the function and the panel is not shown.
\<close>

definition catch_block :: "browser \<Rightarrow> string \<Rightarrow> completion \<times> event list" where
  "catch_block b panel =
     (if sdk_throws b ClosePeer then (Thrown, [LoadingStop])
      else (Completed, [LoadingStop, Close, Panel panel]))"

text \<open>
  The whole function: how it ends (\<open>Thrown\<close> when the returned promise is rejected) and what
  it did. The \<^verbatim>\<open>finally\<close> block removes the audio element when one was created.
\<close>

definition appStartStreaming :: "browser \<Rightarrow> (completion \<times> event list) option" where
  "appStartStreaming b =
     (case start_try b of
        None \<Rightarrow> None
      | Some (Thrown, t) \<Rightarrow>
          Some (fst (catch_block b ''appError''),
                t @ snd (catch_block b ''appError'')
                  @ (if webkit b then [AudioRemove] else []))
      | Some (Returned, t) \<Rightarrow> Some (Returned, t)
      | Some (Completed, t) \<Rightarrow>
          Some (Completed, t @ (if webkit b then [AudioRemove] else [])))"

definition reconnect_try :: "browser \<Rightarrow> completion \<times> event list" where
  "reconnect_try b =
     (if sdk_throws b GenerateSignalRequest then
        (Thrown, [Panel ''appConnecting'', LoadingStart])
      else if throws b PostReconnect then
        (Thrown, [Panel ''appConnecting'', LoadingStart, SignalRequestGenerated,
                  Post ''/api/ReconnectStreamSession''])
      else if sdk_throws b ProcessSignalResponse then
        (Thrown, [Panel ''appConnecting'', LoadingStart, SignalRequestGenerated,
                  Post ''/api/ReconnectStreamSession''])
      else
        (Completed, [Panel ''appConnecting'', LoadingStart, SignalRequestGenerated,
                     Post ''/api/ReconnectStreamSession'', SignalResponseProcessed,
                     LoadingStop, Panel ''appStreaming'']))"

text \<open>
  \<^verbatim>\<open>appReconnectStreaming\<close> reads the token from the query parameters before the \<^verbatim>\<open>try\<close>
  block: an exception there reaches no \<^verbatim>\<open>catch\<close> block.
\<close>

definition appReconnectStreaming :: "browser \<Rightarrow> completion \<times> event list" where
  "appReconnectStreaming b =
     (if throws b ReadToken then (Thrown, [])
      else
        (case reconnect_try b of
           (Thrown, t) \<Rightarrow>
             (fst (catch_block b ''appReconnectError''),
              t @ snd (catch_block b ''appReconnectError''))
         | (c, t) \<Rightarrow> (c, t)))"

subsection \<open>Properties of a run\<close>

definition error_panel :: "string \<Rightarrow> bool" where
  "error_panel name = (name = ''appError'' \<or> name = ''appReconnectError'')"

text \<open>
  Reading a run from the left with the state of the peer (\<open>closed\<close> or not): \<^verbatim>\<open>close()\<close>
  releases it, a later use of it for signalling opens it again, and an error panel may only
  be shown while it is closed.
\<close>

fun released_before_error :: "bool \<Rightarrow> event list \<Rightarrow> bool" where
  "released_before_error closed [] = True"
| "released_before_error closed (Close # t) = released_before_error True t"
| "released_before_error closed (SignalRequestGenerated # t) = released_before_error False t"
| "released_before_error closed (SignalResponseProcessed # t) = released_before_error False t"
| "released_before_error closed (Panel name # t) =
     (if error_panel name then closed \<and> released_before_error closed t
      else released_before_error closed t)"
| "released_before_error closed (e # t) = released_before_error closed t"

fun no_error_panel :: "event list \<Rightarrow> bool" where
  "no_error_panel [] = True"
| "no_error_panel (Panel name # t) = (\<not> error_panel name \<and> no_error_panel t)"
| "no_error_panel (e # t) = no_error_panel t"

section \<open>Concrete configurations\<close>

text \<open>
  The values of \<^verbatim>\<open>config.js\<close> as shipped, with \<^verbatim>\<open>IS_LOCAL = true\<close> and no command-line flag.
\<close>

definition shipped :: env where
  "shipped =
     \<lparr> IS_LOCAL = True, STREAM_GROUP_ID = None, NODE_ENV = None,
       argv = [''node'', ''server.js''],
       GENERAL_ERROR_STATUS_CODE = 502,
       STREAM_CONNECTION_TIMEOUT_SECONDS = 600,
       json_set = (\<lambda>s url. None),
       stack = (\<lambda>message. []) \<rparr>"

text \<open>
  \<^verbatim>\<open>JSON.parse\<close>, the assignment of \<^verbatim>\<open>webSdkProtocolUrl\<close> and \<^verbatim>\<open>JSON.stringify\<close> on the text
  \<^verbatim>\<open>{}\<close> and on text that is not JSON, which \<^verbatim>\<open>JSON.parse\<close> rejects. It is applied to
  no other text below.
\<close>

definition json_set_empty_object :: "json \<Rightarrow> string \<Rightarrow> json option" where
  \<open>json_set_empty_object s url =
     (if s = ''{}'' then Some (''{"webSdkProtocolUrl":"'' @ url @ ''"}'') else None)\<close>

text \<open>The same server started with \<^verbatim>\<open>--override_protocol\<close>.\<close>

definition overridden :: env where
  "overridden =
     shipped\<lparr> argv := [''node'', ''server.js'', ''--override_protocol''],
              json_set := json_set_empty_object \<rparr>"

text \<open>A stubbed provider: each operation has a fixed outcome.\<close>

definition stub ::
  "string option outcome \<Rightarrow> stream_session outcome \<Rightarrow> json option outcome \<Rightarrow> unit outcome
     \<Rightarrow> provider" where
  "stub started session connected terminated =
     \<lparr> startStreamSession = (\<lambda>rq. started),
       getStreamSession = (\<lambda>rq. session),
       createStreamSessionConnection = (\<lambda>rq. connected),
       terminateStreamSession = (\<lambda>rq. terminated) \<rparr>"

text \<open>A request whose body has at most a \<^verbatim>\<open>Token\<close> member.\<close>

definition post :: "string option \<Rightarrow> request" where
  "post token =
     \<lparr> correlationId = ''c-1'', Token = token, body_StreamGroupId = None, UserId = None,
       SignalRequest = None, ApplicationIdentifier = None, Locations = None,
       AdditionalLaunchArgs = None, AdditionalEnvironmentVariables = None \<rparr>"

definition no_sessions :: server where
  "no_sessions = \<lparr> connectionDatabase = Map.empty, timers = [] \<rparr>"

definition session1 :: connection where
  "session1 = \<lparr> StreamGroupId = Some ''sg-1'', StreamSessionArn = Some ''arn:1'', Timestamp = 0 \<rparr>"

definition one_session :: server where
  "one_session =
     \<lparr> connectionDatabase = [''T1'' \<mapsto> session1], timers = [(86400000, ''T1'')] \<rparr>"

text \<open>
  A page in landscape with a peer object, on which exactly the stages \<open>failing\<close> throw and
  the polls are answered by \<open>polls\<close>.
\<close>

definition page :: "stage list \<Rightarrow> poll list \<Rightarrow> browser" where
  "page failing polls =
     \<lparr> landscape = True, webkit = False, mobile = False, peer = True,
       throws = (\<lambda>st. st \<in> set failing),
       answers = polls \<rparr>"

section \<open>Properties of the backend\<close>

subsection \<open>The token lookup\<close>

lemma lookup_entry:
  "db token = Some c \<Longrightarrow> token \<noteq> [] \<Longrightarrow> lookup db (Some token) = Entry c"
  by (simp add: lookup_def property_def truthy_def)

lemma lookup_unknown:
  "db token = None \<Longrightarrow> token \<notin> set object_prototype_keys \<Longrightarrow> lookup db (Some token) = Falsy"
  by (simp add: lookup_def property_def truthy_def)

lemma lookup_inherited:
  "db token = None \<Longrightarrow> token \<in> set object_prototype_keys \<Longrightarrow> lookup db (Some token) = PrototypeMember"
  by (auto simp add: lookup_def property_def truthy_def object_prototype_keys_def)

subsection \<open>Requests with a missing or empty token\<close>

text \<open>
  C9. A Poll Signal, Reconnect or Destroy request whose body has no \<^verbatim>\<open>Token\<close> member, or an
  empty string for it, is answered 404, without any provider call and with the server state
  (registry and timers) unchanged: the guard \<^verbatim>\<open>req.body.Token && ...\<close> stops at the falsy
  token.
\<close>

theorem falsy_token_not_found:
  "status (reply (GetSignalResponse e p now later s (req\<lparr>Token := None\<rparr>))) = 404
   \<and> state (GetSignalResponse e p now later s (req\<lparr>Token := None\<rparr>)) = s
   \<and> calls (GetSignalResponse e p now later s (req\<lparr>Token := None\<rparr>)) = []
   \<and> status (reply (GetSignalResponse e p now later s (req\<lparr>Token := Some ''''\<rparr>))) = 404
   \<and> state (GetSignalResponse e p now later s (req\<lparr>Token := Some ''''\<rparr>)) = s
   \<and> calls (GetSignalResponse e p now later s (req\<lparr>Token := Some ''''\<rparr>)) = []
   \<and> ReconnectStreamSession p s (req\<lparr>Token := None\<rparr>)
       = \<lparr> reply = \<lparr> status = 404, body = [] \<rparr>, state = s, calls = [] \<rparr>
   \<and> ReconnectStreamSession p s (req\<lparr>Token := Some ''''\<rparr>)
       = \<lparr> reply = \<lparr> status = 404, body = [] \<rparr>, state = s, calls = [] \<rparr>
   \<and> DestroyStreamSession p s (req\<lparr>Token := None\<rparr>)
       = \<lparr> reply = \<lparr> status = 404, body = [] \<rparr>, state = s, calls = [] \<rparr>
   \<and> DestroyStreamSession p s (req\<lparr>Token := Some ''''\<rparr>)
       = \<lparr> reply = \<lparr> status = 404, body = [] \<rparr>, state = s, calls = [] \<rparr>"
  by (simp add: GetSignalResponse_def ReconnectStreamSession_def DestroyStreamSession_def
      lookup_def connection_not_found_def)

subsection \<open>Expiry\<close>



text \<open>
  Counterexample to C6 as stated: under the shipped configuration a Create request without
  stream group, accepted by the provider at time 1000, inserts an entry that Poll Signal
  does not serve one millisecond later, long before the timeout of 600 seconds: the lookup
  guard answers 404 and the provider is not asked.
\<close>

theorem entry_without_stream_group_counterexample:
  "connectionDatabase
     (state (CreateStreamSession shipped
               (stub (Succeeded (Some ''arn:1'')) (Failed []) (Failed []) (Failed []))
               ''T2'' 1000 no_sessions (post None))) ''T2''
     = Some \<lparr> StreamGroupId = None, StreamSessionArn = Some ''arn:1'', Timestamp = 1000 \<rparr>
   \<and> (1001::int) < 1000 + STREAM_CONNECTION_TIMEOUT_SECONDS shipped * 1000
   \<and> GetSignalResponse shipped
        (stub (Failed [])
           (Succeeded \<lparr> Status = Some ''ACTIVE'', SignalResponse = Some ''ANSWER'' \<rparr>)
           (Failed []) (Failed []))
        1001 1002
        (state (CreateStreamSession shipped
                  (stub (Succeeded (Some ''arn:1'')) (Failed []) (Failed []) (Failed []))
                  ''T2'' 1000 no_sessions (post None)))
        (post (Some ''T2''))
     = \<lparr> reply = \<lparr> status = 404,
                    body = [(''error'', ''Connection data not found''),
                            (''message'', ''Invalid token or missing stream group ID'')] \<rparr>,
         state = state (CreateStreamSession shipped
                          (stub (Succeeded (Some ''arn:1'')) (Failed []) (Failed []) (Failed []))
                          ''T2'' 1000 no_sessions (post None)),
         calls = [] \<rparr>"
  by (simp add: CreateStreamSession_def GetSignalResponse_def shipped_def stub_def post_def
      no_sessions_def lookup_def property_def truthy_def connection_not_found_def)

text \<open>
  C6, amended. An entry with a stream group id inserted at time \<open>T\<close> (its \<open>Timestamp\<close>), for
  as long as it is in the registry. At every time before \<open>T\<close> plus the timeout Poll Signal
  retrieves it: the answer is the one the provider's report for the stored session
  determines (502 when the provider call fails, 200 with an empty payload for
  \<^verbatim>\<open>ACTIVATING\<close>, 200 with the signal response for \<^verbatim>\<open>ACTIVE\<close>, 404 \<^verbatim>\<open>Unexpected stream status\<close>
  otherwise), and the same after a cleanup run up to that time. At every time after \<open>T\<close>
  plus the timeout Poll Signal answers 404 without a provider call: \<^verbatim>\<open>Connection token expired\<close>
  while the entry is in the registry, \<^verbatim>\<open>Connection data not found\<close> once a cleanup run (at
  any time \<open>swept\<close>) has removed it.
\<close>

theorem ttl_expiry:
  assumes "connectionDatabase s token = Some c" and "token \<noteq> []"
    and "truthy (StreamGroupId c)"
  shows "(now < Timestamp c + STREAM_CONNECTION_TIMEOUT_SECONDS e * 1000 \<longrightarrow> swept \<le> now \<longrightarrow>
            GetSignalResponse e p now later s (req\<lparr>Token := Some token\<rparr>)
              = (case getStreamSession p \<lparr> Identifier = StreamGroupId c,
                                           StreamSessionIdentifier = StreamSessionArn c \<rparr> of
                   Failed message \<Rightarrow>
                     \<lparr> reply =
                         \<lparr> status = 502,
                           body = [(''error'', ''An error occurred while processing your request''),
                                   (''correlationId'', correlationId req),
                                   (''message'', ''Failed to get stream session: '' @ message)]
                                  @ (if NODE_ENV e = Some ''development''
                                     then [(''stack'',
                                            stack e (''Failed to get stream session: '' @ message))]
                                     else []) \<rparr>,
                       state = s,
                       calls = [GetStreamSession \<lparr> Identifier = StreamGroupId c,
                                  StreamSessionIdentifier = StreamSessionArn c \<rparr>] \<rparr>
                 | Succeeded d \<Rightarrow>
                     \<lparr> reply =
                         (if Status d = Some ''ACTIVATING'' then
                            \<lparr> status = 200, body = [(''SignalResponse'', '''')] \<rparr>
                          else if Status d = Some ''ACTIVE'' then
                            \<lparr> status = 200,
                              body = (case signalResponse e later (SignalResponse d) of
                                        None \<Rightarrow> []
                                      | Some answer \<Rightarrow> [(''SignalResponse'', answer)]) \<rparr>
                          else
                            \<lparr> status = 404,
                              body = [(''error'', ''Unexpected stream status'')]
                                     @ (case Status d of
                                          None \<Rightarrow> []
                                        | Some other \<Rightarrow> [(''status'', other)])
                                     @ [(''correlationId'', correlationId req)] \<rparr>),
                       state = s,
                       calls = [GetStreamSession \<lparr> Identifier = StreamGroupId c,
                                  StreamSessionIdentifier = StreamSessionArn c \<rparr>] \<rparr>)
          \<and> GetSignalResponse e p now later (cleanup e swept s) (req\<lparr>Token := Some token\<rparr>)
              = (GetSignalResponse e p now later s (req\<lparr>Token := Some token\<rparr>))
                  \<lparr> state := cleanup e swept s \<rparr>)
       \<and> (Timestamp c + STREAM_CONNECTION_TIMEOUT_SECONDS e * 1000 < now \<longrightarrow>
            GetSignalResponse e p now later s (req\<lparr>Token := Some token\<rparr>)
              = \<lparr> reply = \<lparr> status = 404,
                             body = [(''error'', ''Connection token expired''),
                                     (''correlationId'', correlationId req)] \<rparr>,
                  state = s, calls = [] \<rparr>
          \<and> GetSignalResponse e p now later (cleanup e swept s) (req\<lparr>Token := Some token\<rparr>)
              = \<lparr> reply =
                    (if swept - Timestamp c > STREAM_CONNECTION_TIMEOUT_SECONDS e * 1000 then
                       \<lparr> status = 404,
                         body = [(''error'', ''Connection data not found''),
                                 (''message'', ''Invalid token or missing stream group ID'')] \<rparr>
                     else
                       \<lparr> status = 404,
                         body = [(''error'', ''Connection token expired''),
                                 (''correlationId'', correlationId req)] \<rparr>),
                  state = cleanup e swept s, calls = [] \<rparr>)"
proof -
  let ?s' = "cleanup e swept s"
  let ?req = "req\<lparr>Token := Some token\<rparr>"
  have kept: "connectionDatabase ?s' token = Some c" if "\<not> expired e swept c"
    using that assms(1) by (simp add: cleanup_def)
  have gone: "connectionDatabase ?s' token = None" if "expired e swept c"
    using that assms(1) by (simp add: cleanup_def)
  have live: "GetSignalResponse e p now later s' ?req
      = (case getStreamSession p \<lparr> Identifier = StreamGroupId c,
                                   StreamSessionIdentifier = StreamSessionArn c \<rparr> of
           Failed message \<Rightarrow>
             \<lparr> reply = unhandled e ?req (''Failed to get stream session: '' @ message),
               state = s',
               calls = [GetStreamSession \<lparr> Identifier = StreamGroupId c,
                          StreamSessionIdentifier = StreamSessionArn c \<rparr>] \<rparr>
         | Succeeded d \<Rightarrow>
             \<lparr> reply =
                 (if Status d = Some ''ACTIVATING'' then
                    \<lparr> status = 200, body = [(''SignalResponse'', '''')] \<rparr>
                  else if Status d = Some ''ACTIVE'' then
                    \<lparr> status = 200,
                      body = json_member ''SignalResponse''
                               (signalResponse e later (SignalResponse d)) \<rparr>
                  else
                    \<lparr> status = 404,
                      body = [(''error'', ''Unexpected stream status'')]
                             @ json_member ''status'' (Status d)
                             @ [(''correlationId'', correlationId req)] \<rparr>),
               state = s',
               calls = [GetStreamSession \<lparr> Identifier = StreamGroupId c,
                          StreamSessionIdentifier = StreamSessionArn c \<rparr>] \<rparr>)"
    if "connectionDatabase s' token = Some c" and "\<not> expired e now c" for s'
    using that assms(2,3)
    by (simp add: GetSignalResponse_def lookup_entry Let_def split: outcome.split)
  have dead: "GetSignalResponse e p now later s' ?req
      = \<lparr> reply = \<lparr> status = 404,
                     body = [(''error'', ''Connection token expired''),
                             (''correlationId'', correlationId req)] \<rparr>,
          state = s', calls = [] \<rparr>"
    if "connectionDatabase s' token = Some c" and "expired e now c" for s'
    using that assms(2,3) by (simp add: GetSignalResponse_def lookup_entry)
  have unknown: "GetSignalResponse e p now later s' ?req
      = \<lparr> reply = \<lparr> status = 404,
                     body = [(''error'', ''Connection data not found''),
                             (''message'', ''Invalid token or missing stream group ID'')] \<rparr>,
          state = s', calls = [] \<rparr>"
    if "connectionDatabase s' token = None" for s'
    using that assms(2)
    by (simp add: GetSignalResponse_def lookup_def property_def connection_not_found_def)
  show ?thesis
  proof (intro conjI impI)
    assume "now < Timestamp c + STREAM_CONNECTION_TIMEOUT_SECONDS e * 1000"
      and "swept \<le> now"
    then have ne: "\<not> expired e now c" and ns: "\<not> expired e swept c"
      by (simp_all add: expired_def)
    show "GetSignalResponse e p now later s ?req
        = (case getStreamSession p \<lparr> Identifier = StreamGroupId c,
                                     StreamSessionIdentifier = StreamSessionArn c \<rparr> of
             Failed message \<Rightarrow>
               \<lparr> reply =
                   \<lparr> status = 502,
                     body = [(''error'', ''An error occurred while processing your request''),
                             (''correlationId'', correlationId req),
                             (''message'', ''Failed to get stream session: '' @ message)]
                            @ (if NODE_ENV e = Some ''development''
                               then [(''stack'',
                                      stack e (''Failed to get stream session: '' @ message))]
                               else []) \<rparr>,
                 state = s,
                 calls = [GetStreamSession \<lparr> Identifier = StreamGroupId c,
                            StreamSessionIdentifier = StreamSessionArn c \<rparr>] \<rparr>
           | Succeeded d \<Rightarrow>
               \<lparr> reply =
                   (if Status d = Some ''ACTIVATING'' then
                      \<lparr> status = 200, body = [(''SignalResponse'', '''')] \<rparr>
                    else if Status d = Some ''ACTIVE'' then
                      \<lparr> status = 200,
                        body = (case signalResponse e later (SignalResponse d) of
                                  None \<Rightarrow> []
                                | Some answer \<Rightarrow> [(''SignalResponse'', answer)]) \<rparr>
                    else
                      \<lparr> status = 404,
                        body = [(''error'', ''Unexpected stream status'')]
                               @ (case Status d of
                                    None \<Rightarrow> []
                                  | Some other \<Rightarrow> [(''status'', other)])
                               @ [(''correlationId'', correlationId req)] \<rparr>),
                 state = s,
                 calls = [GetStreamSession \<lparr> Identifier = StreamGroupId c,
                            StreamSessionIdentifier = StreamSessionArn c \<rparr>] \<rparr>)"
      using live [OF assms(1) ne]
      by (simp add: unhandled_def generalErrorStatusCode_def json_member_def
          split: outcome.split)
    show "GetSignalResponse e p now later ?s' ?req
        = (GetSignalResponse e p now later s ?req)\<lparr> state := ?s' \<rparr>"
      using live [OF assms(1) ne] live [OF kept [OF ns] ne]
      by (simp split: outcome.split)
  next
    assume "Timestamp c + STREAM_CONNECTION_TIMEOUT_SECONDS e * 1000 < now"
    then have ex: "expired e now c" by (simp add: expired_def)
    show "GetSignalResponse e p now later s ?req
        = \<lparr> reply = \<lparr> status = 404,
                       body = [(''error'', ''Connection token expired''),
                               (''correlationId'', correlationId req)] \<rparr>,
            state = s, calls = [] \<rparr>"
      using dead [OF assms(1) ex] .
    show "GetSignalResponse e p now later ?s' ?req
        = \<lparr> reply =
              (if swept - Timestamp c > STREAM_CONNECTION_TIMEOUT_SECONDS e * 1000 then
                 \<lparr> status = 404,
                   body = [(''error'', ''Connection data not found''),
                           (''message'', ''Invalid token or missing stream group ID'')] \<rparr>
               else
                 \<lparr> status = 404,
                   body = [(''error'', ''Connection token expired''),
                           (''correlationId'', correlationId req)] \<rparr>),
            state = ?s', calls = [] \<rparr>"
    proof (cases "expired e swept c")
      case True
      with unknown [OF gone [OF True]] show ?thesis by (simp add: expired_def)
    next
      case False
      with dead [OF kept [OF False] ex] show ?thesis by (simp add: expired_def)
    qed
  qed
qed

text \<open>
  Witness for C6, amended: the entry created at time 0 under the shipped timeout, polled one
  millisecond before 600000 with a provider that reports \<^verbatim>\<open>ACTIVE\<close>, and one millisecond
  after, before and after a cleanup run.
\<close>

theorem ttl_expiry_witness:
  "connectionDatabase one_session ''T1'' = Some session1
   \<and> truthy (StreamGroupId session1)
   \<and> (599999::int) < Timestamp session1 + STREAM_CONNECTION_TIMEOUT_SECONDS shipped * 1000
   \<and> GetSignalResponse shipped
        (stub (Failed [])
           (Succeeded \<lparr> Status = Some ''ACTIVE'', SignalResponse = Some ''ANSWER'' \<rparr>)
           (Failed []) (Failed []))
        599999 600005 one_session (post (Some ''T1''))
       = \<lparr> reply = \<lparr> status = 200, body = [(''SignalResponse'', ''ANSWER'')] \<rparr>,
           state = one_session,
           calls = [GetStreamSession \<lparr> Identifier = Some ''sg-1'',
                                       StreamSessionIdentifier = Some ''arn:1'' \<rparr>] \<rparr>
   \<and> Timestamp session1 + STREAM_CONNECTION_TIMEOUT_SECONDS shipped * 1000 < (600001::int)
   \<and> GetSignalResponse shipped
        (stub (Failed [])
           (Succeeded \<lparr> Status = Some ''ACTIVE'', SignalResponse = Some ''ANSWER'' \<rparr>)
           (Failed []) (Failed []))
        600001 600005 one_session (post (Some ''T1''))
       = \<lparr> reply = \<lparr> status = 404,
                      body = [(''error'', ''Connection token expired''),
                              (''correlationId'', ''c-1'')] \<rparr>,
           state = one_session, calls = [] \<rparr>
   \<and> reply (GetSignalResponse shipped
        (stub (Failed [])
           (Succeeded \<lparr> Status = Some ''ACTIVE'', SignalResponse = Some ''ANSWER'' \<rparr>)
           (Failed []) (Failed []))
        600001 600005 (cleanup shipped 600001 one_session) (post (Some ''T1'')))
       = \<lparr> status = 404,
           body = [(''error'', ''Connection data not found''),
                   (''message'', ''Invalid token or missing stream group ID'')] \<rparr>"
  using
    ttl_expiry [where s = one_session and token = "''T1''" and c = session1
      and now = 599999 and e = shipped and swept = 590000 and later = 600005
      and req = "post (Some ''T1'')"
      and p = "stub (Failed [])
           (Succeeded \<lparr> Status = Some ''ACTIVE'', SignalResponse = Some ''ANSWER'' \<rparr>)
           (Failed []) (Failed [])"]
    ttl_expiry [where s = one_session and token = "''T1''" and c = session1
      and now = 600001 and e = shipped and swept = 600001 and later = 600005
      and req = "post (Some ''T1'')"
      and p = "stub (Failed [])
           (Succeeded \<lparr> Status = Some ''ACTIVE'', SignalResponse = Some ''ANSWER'' \<rparr>)
           (Failed []) (Failed [])"]
  by (simp add: one_session_def session1_def shipped_def post_def truthy_def stub_def
      signalResponse_def)

subsection \<open>Create\<close>

text \<open>
  A successful Create writes one entry under the new token, stamped with the time of the
  success callback, and schedules its removal 24 hours later.
\<close>

lemma create_inserts_entry:
  assumes "IS_LOCAL e"
    and "startStreamSession p (requestData e (body_StreamGroupId req) req) = Succeeded arn"
  shows "CreateStreamSession e p connectionId now s req
           = \<lparr> reply = \<lparr> status = 200, body = [(''Token'', connectionId)] \<rparr>,
               state = \<lparr> connectionDatabase =
                           (connectionDatabase s)(connectionId \<mapsto>
                              \<lparr> StreamGroupId = body_StreamGroupId req,
                                StreamSessionArn = arn,
                                Timestamp = now \<rparr>),
                         timers = timers s @ [(now + 86400000, connectionId)] \<rparr>,
               calls = [StartStreamSession (requestData e (body_StreamGroupId req) req)] \<rparr>"
  using assms by (simp add: CreateStreamSession_def Let_def)

text \<open>
  C4. Whenever the provider's \<^verbatim>\<open>startStreamSession\<close> call made by Create fails, the response is
  the error response (status \<^verbatim>\<open>config.GENERAL_ERROR_STATUS_CODE\<close>, the provider's message), it
  carries no token, and the server state is exactly what it was: no entry inserted, no
  removal scheduled.
\<close>

theorem failed_create_no_mutation:
  assumes "StartStreamSession rq \<in> set (calls (CreateStreamSession e p connectionId now s req))"
    and "startStreamSession p rq = Failed message"
  shows "reply (CreateStreamSession e p connectionId now s req)
           = \<lparr> status = GENERAL_ERROR_STATUS_CODE e, body = [(''error'', message)] \<rparr>
       \<and> map_of (body (reply (CreateStreamSession e p connectionId now s req))) ''Token'' = None
       \<and> state (CreateStreamSession e p connectionId now s req) = s"
  using assms
  by (auto simp add: CreateStreamSession_def Let_def split: if_splits outcome.splits)

text \<open>Witness for C4: a stubbed provider whose start call fails, under the shipped configuration.\<close>

theorem failed_create_no_mutation_witness:
  "StartStreamSession (requestData shipped None (post None))
     \<in> set (calls (CreateStreamSession shipped
                     (stub (Failed ''ResourceNotFound'') (Failed []) (Failed []) (Failed []))
                     ''T2'' 1000 one_session (post None)))
   \<and> reply (CreateStreamSession shipped
              (stub (Failed ''ResourceNotFound'') (Failed []) (Failed []) (Failed []))
              ''T2'' 1000 one_session (post None))
       = \<lparr> status = 502, body = [(''error'', ''ResourceNotFound'')] \<rparr>
   \<and> state (CreateStreamSession shipped
              (stub (Failed ''ResourceNotFound'') (Failed []) (Failed []) (Failed []))
              ''T2'' 1000 one_session (post None)) = one_session"
  using failed_create_no_mutation [of "requestData shipped None (post None)" shipped
      "stub (Failed ''ResourceNotFound'') (Failed []) (Failed []) (Failed [])"
      "''T2''" 1000 one_session "post None" "''ResourceNotFound''"]
  by (simp add: CreateStreamSession_def shipped_def stub_def post_def)

text \<open>
  Counterexample to C7 as stated: under the shipped configuration a Create request without
  user identifier, application identifier and stream group is not rejected. The provider is
  called with these fields missing, and when it accepts, an entry is written to the registry.
\<close>

theorem create_unvalidated_counterexample:
  "UserId (post None) = None \<and> ApplicationIdentifier (post None) = None
   \<and> body_StreamGroupId (post None) = None
   \<and> calls (CreateStreamSession shipped
              (stub (Succeeded (Some ''arn:1'')) (Failed []) (Failed []) (Failed []))
              ''T2'' 1000 no_sessions (post None))
       = [StartStreamSession (requestData shipped None (post None))]
   \<and> reply (CreateStreamSession shipped
              (stub (Succeeded (Some ''arn:1'')) (Failed []) (Failed []) (Failed []))
              ''T2'' 1000 no_sessions (post None))
       = \<lparr> status = 200, body = [(''Token'', ''T2'')] \<rparr>
   \<and> connectionDatabase
        (state (CreateStreamSession shipped
                  (stub (Succeeded (Some ''arn:1'')) (Failed []) (Failed []) (Failed []))
                  ''T2'' 1000 no_sessions (post None))) ''T2''
       = Some \<lparr> StreamGroupId = None, StreamSessionArn = Some ''arn:1'', Timestamp = 1000 \<rparr>"
  by (simp add: CreateStreamSession_def shipped_def stub_def post_def no_sessions_def)

text \<open>
  C7, amended. Create does not validate the fields of the request body. The only request it
  rejects before contacting the provider is one that arrives when \<^verbatim>\<open>IS_LOCAL\<close> is false and
  \<^verbatim>\<open>STREAM_GROUP_ID\<close> is not configured: the answer is 500, with no provider call and the
  state unchanged. In every other case the provider is called once, with the fields of the
  body as they came.
\<close>

theorem create_rejects_only_unconfigured:
  "(\<not> IS_LOCAL e \<and> \<not> truthy (STREAM_GROUP_ID e) \<longrightarrow>
      CreateStreamSession e p connectionId now s req
        = \<lparr> reply = \<lparr> status = 500,
                      body = [(''error'', ''Server Configuration Error''),
                              (''message'', ''STREAM_GROUP_ID not configured'')] \<rparr>,
            state = s, calls = [] \<rparr>)
   \<and> (IS_LOCAL e \<longrightarrow>
        calls (CreateStreamSession e p connectionId now s req)
          = [StartStreamSession (requestData e (body_StreamGroupId req) req)])
   \<and> (\<not> IS_LOCAL e \<and> truthy (STREAM_GROUP_ID e) \<longrightarrow>
        calls (CreateStreamSession e p connectionId now s req)
          = [StartStreamSession (requestData e (STREAM_GROUP_ID e) req)])"
  by (simp add: CreateStreamSession_def Let_def split: outcome.split)

text \<open>Witness for C7, amended: one request under the three configurations.\<close>

theorem create_rejects_only_unconfigured_witness:
  "CreateStreamSession (shipped\<lparr> IS_LOCAL := False \<rparr>)
      (stub (Succeeded (Some ''arn:1'')) (Failed []) (Failed []) (Failed []))
      ''T2'' 1000 no_sessions (post None)
     = \<lparr> reply = \<lparr> status = 500,
                   body = [(''error'', ''Server Configuration Error''),
                           (''message'', ''STREAM_GROUP_ID not configured'')] \<rparr>,
         state = no_sessions, calls = [] \<rparr>
   \<and> calls (CreateStreamSession shipped
              (stub (Succeeded (Some ''arn:1'')) (Failed []) (Failed []) (Failed []))
              ''T2'' 1000 no_sessions (post None))
       = [StartStreamSession (requestData shipped None (post None))]
   \<and> calls (CreateStreamSession (shipped\<lparr> IS_LOCAL := False, STREAM_GROUP_ID := Some ''sg-1'' \<rparr>)
              (stub (Succeeded (Some ''arn:1'')) (Failed []) (Failed []) (Failed []))
              ''T2'' 1000 no_sessions (post None))
       = [StartStreamSession
            (requestData (shipped\<lparr> IS_LOCAL := False, STREAM_GROUP_ID := Some ''sg-1'' \<rparr>)
               (Some ''sg-1'') (post None))]"
  using
    create_rejects_only_unconfigured [of "shipped\<lparr> IS_LOCAL := False \<rparr>"
      "stub (Succeeded (Some ''arn:1'')) (Failed []) (Failed []) (Failed [])"
      "''T2''" 1000 no_sessions "post None"]
    create_rejects_only_unconfigured [of shipped
      "stub (Succeeded (Some ''arn:1'')) (Failed []) (Failed []) (Failed [])"
      "''T2''" 1000 no_sessions "post None"]
    create_rejects_only_unconfigured
      [of "shipped\<lparr> IS_LOCAL := False, STREAM_GROUP_ID := Some ''sg-1'' \<rparr>"
      "stub (Succeeded (Some ''arn:1'')) (Failed []) (Failed []) (Failed [])"
      "''T2''" 1000 no_sessions "post None"]
  by (simp add: shipped_def truthy_def post_def)

subsection \<open>Poll Signal\<close>

text \<open>
  Counterexample to C1 as stated: on a server started with \<^verbatim>\<open>--override_protocol\<close>, a live
  entry whose session is \<^verbatim>\<open>ACTIVE\<close> with the payload \<^verbatim>\<open>{}\<close> is answered with a rewritten
  payload, not with the provider's.
\<close>

theorem poll_active_override_counterexample:
  \<open>reply (GetSignalResponse overridden
            (stub (Failed []) (Succeeded \<lparr> Status = Some ''ACTIVE'', SignalResponse = Some ''{}'' \<rparr>)
               (Failed []) (Failed []))
            1000 1200 one_session (post (Some ''T1'')))
     = \<lparr> status = 200,
         body = [(''SignalResponse'',
                  ''{"webSdkProtocolUrl":"/override_protocol.js?1200"}'')] \<rparr>
   \<and> \<not> expired overridden 1000 session1
   \<and> connectionDatabase one_session ''T1'' = Some session1
   \<and> map_of (body (reply (GetSignalResponse overridden
            (stub (Failed []) (Succeeded \<lparr> Status = Some ''ACTIVE'', SignalResponse = Some ''{}'' \<rparr>)
               (Failed []) (Failed []))
            1000 1200 one_session (post (Some ''T1''))))) ''SignalResponse''
       \<noteq> Some ''{}''\<close>
  by (simp add: GetSignalResponse_def overridden_def shipped_def stub_def one_session_def
      session1_def post_def lookup_def property_def truthy_def expired_def signalResponse_def
      json_member_def json_set_empty_object_def override_protocol_url_def decimal.simps)

text \<open>
  C1, amended. For a Poll Signal request whose token maps to an unexpired entry that has a
  stream group id, and a provider that reports a session: status \<^verbatim>\<open>ACTIVATING\<close> gives 200
  with an empty \<^verbatim>\<open>SignalResponse\<close>; status \<^verbatim>\<open>ACTIVE\<close> gives 200 with a \<^verbatim>\<open>SignalResponse\<close>
  that is the provider's payload unchanged when the server runs without
  \<^verbatim>\<open>--override_protocol\<close>, and with that flag is the text the override code produces from
  the payload and the URL \<^verbatim>\<open>/override_protocol.js?\<close> followed by the time (\<^verbatim>\<open>JSON.parse\<close>,
  assignment of \<^verbatim>\<open>webSdkProtocolUrl\<close>, \<^verbatim>\<open>JSON.stringify\<close>) when none of the three throws, and
  the provider's payload unchanged when one of them throws or the payload is missing; any
  other status gives 404. The server state is unchanged in every case.
\<close>

theorem poll_state_mapping:
  assumes "connectionDatabase s token = Some c" and "token \<noteq> []"
    and "truthy (StreamGroupId c)" and "\<not> expired e now c"
    and "getStreamSession p \<lparr> Identifier = StreamGroupId c,
                               StreamSessionIdentifier = StreamSessionArn c \<rparr> = Succeeded d"
  shows "reply (GetSignalResponse e p now later s (req\<lparr>Token := Some token\<rparr>))
           = (if Status d = Some ''ACTIVATING'' then
                \<lparr> status = 200, body = [(''SignalResponse'', '''')] \<rparr>
              else if Status d = Some ''ACTIVE'' then
                \<lparr> status = 200,
                  body =
                    (case SignalResponse d of
                       None \<Rightarrow> []
                     | Some payload \<Rightarrow>
                         if ''--override_protocol'' \<in> set (argv e) then
                           (case json_set e payload (override_protocol_url later) of
                              None \<Rightarrow> [(''SignalResponse'', payload)]
                            | Some rewritten \<Rightarrow> [(''SignalResponse'', rewritten)])
                         else [(''SignalResponse'', payload)]) \<rparr>
              else
                \<lparr> status = 404,
                  body = [(''error'', ''Unexpected stream status'')]
                         @ (case Status d of None \<Rightarrow> [] | Some other \<Rightarrow> [(''status'', other)])
                         @ [(''correlationId'', correlationId req)] \<rparr>)
       \<and> state (GetSignalResponse e p now later s (req\<lparr>Token := Some token\<rparr>)) = s"
  using assms
  by (simp add: GetSignalResponse_def lookup_entry Let_def signalResponse_def json_member_def
      split: option.split)

text \<open>
  Witness for C1, amended: the three kinds of status under the shipped configuration, and
  status \<^verbatim>\<open>ACTIVE\<close> on the server started with \<^verbatim>\<open>--override_protocol\<close>, for a payload that is
  rewritten and for one that is not JSON.
\<close>

theorem poll_state_mapping_witness:
  \<open>reply (GetSignalResponse shipped
            (stub (Failed []) (Succeeded \<lparr> Status = Some ''ACTIVATING'', SignalResponse = None \<rparr>)
               (Failed []) (Failed []))
            1000 1200 one_session (post (Some ''T1'')))
     = \<lparr> status = 200, body = [(''SignalResponse'', '''')] \<rparr>
   \<and> reply (GetSignalResponse shipped
            (stub (Failed []) (Succeeded \<lparr> Status = Some ''ACTIVE'', SignalResponse = Some ''ANSWER'' \<rparr>)
               (Failed []) (Failed []))
            1000 1200 one_session (post (Some ''T1'')))
     = \<lparr> status = 200, body = [(''SignalResponse'', ''ANSWER'')] \<rparr>
   \<and> reply (GetSignalResponse shipped
            (stub (Failed []) (Succeeded \<lparr> Status = Some ''TERMINATED'', SignalResponse = None \<rparr>)
               (Failed []) (Failed []))
            1000 1200 one_session (post (Some ''T1'')))
     = \<lparr> status = 404,
         body = [(''error'', ''Unexpected stream status''), (''status'', ''TERMINATED''),
                 (''correlationId'', ''c-1'')] \<rparr>
   \<and> reply (GetSignalResponse overridden
            (stub (Failed []) (Succeeded \<lparr> Status = Some ''ACTIVE'', SignalResponse = Some ''{}'' \<rparr>)
               (Failed []) (Failed []))
            1000 1200 one_session (post (Some ''T1'')))
     = \<lparr> status = 200,
         body = [(''SignalResponse'', ''{"webSdkProtocolUrl":"/override_protocol.js?1200"}'')] \<rparr>
   \<and> reply (GetSignalResponse overridden
            (stub (Failed []) (Succeeded \<lparr> Status = Some ''ACTIVE'', SignalResponse = Some ''ANSWER'' \<rparr>)
               (Failed []) (Failed []))
            1000 1200 one_session (post (Some ''T1'')))
     = \<lparr> status = 200, body = [(''SignalResponse'', ''ANSWER'')] \<rparr>\<close>
  using
    poll_state_mapping [of one_session "''T1''" session1 shipped 1000
      "stub (Failed []) (Succeeded \<lparr> Status = Some ''ACTIVATING'', SignalResponse = None \<rparr>)
         (Failed []) (Failed [])"
      "\<lparr> Status = Some ''ACTIVATING'', SignalResponse = None \<rparr>" 1200 "post (Some ''T1'')"]
    poll_state_mapping [of one_session "''T1''" session1 shipped 1000
      "stub (Failed []) (Succeeded \<lparr> Status = Some ''ACTIVE'', SignalResponse = Some ''ANSWER'' \<rparr>)
         (Failed []) (Failed [])"
      "\<lparr> Status = Some ''ACTIVE'', SignalResponse = Some ''ANSWER'' \<rparr>" 1200 "post (Some ''T1'')"]
    poll_state_mapping [of one_session "''T1''" session1 shipped 1000
      "stub (Failed []) (Succeeded \<lparr> Status = Some ''TERMINATED'', SignalResponse = None \<rparr>)
         (Failed []) (Failed [])"
      "\<lparr> Status = Some ''TERMINATED'', SignalResponse = None \<rparr>" 1200 "post (Some ''T1'')"]
    poll_state_mapping [of one_session "''T1''" session1 overridden 1000
      "stub (Failed []) (Succeeded \<lparr> Status = Some ''ACTIVE'', SignalResponse = Some ''{}'' \<rparr>)
         (Failed []) (Failed [])"
      "\<lparr> Status = Some ''ACTIVE'', SignalResponse = Some ''{}'' \<rparr>" 1200 "post (Some ''T1'')"]
    poll_state_mapping [of one_session "''T1''" session1 overridden 1000
      "stub (Failed []) (Succeeded \<lparr> Status = Some ''ACTIVE'', SignalResponse = Some ''ANSWER'' \<rparr>)
         (Failed []) (Failed [])"
      "\<lparr> Status = Some ''ACTIVE'', SignalResponse = Some ''ANSWER'' \<rparr>" 1200 "post (Some ''T1'')"]
  by (simp add: one_session_def session1_def shipped_def overridden_def stub_def post_def
      truthy_def expired_def json_set_empty_object_def override_protocol_url_def decimal.simps)

subsection \<open>Unknown and expired tokens\<close>

text \<open>
  Counterexample to C2 as stated: an entry older than the timeout and not yet swept is still
  served by Reconnect and by Destroy, which do not look at its age, while a token that was
  never issued gets 404.
\<close>

theorem expired_token_reconnect_counterexample:
  "connectionDatabase one_session ''T1'' = Some session1
   \<and> expired shipped 700000 session1
   \<and> connectionDatabase one_session ''T0'' = None
   \<and> reply (ReconnectStreamSession
              (stub (Failed []) (Failed []) (Succeeded (Some ''ANSWER'')) (Failed []))
              one_session ((post (Some ''T1''))\<lparr> SignalRequest := Some ''OFFER'' \<rparr>))
       = \<lparr> status = 200, body = [(''SignalResponse'', ''ANSWER'')] \<rparr>
   \<and> reply (ReconnectStreamSession
              (stub (Failed []) (Failed []) (Succeeded (Some ''ANSWER'')) (Failed []))
              one_session ((post (Some ''T0''))\<lparr> SignalRequest := Some ''OFFER'' \<rparr>))
       = \<lparr> status = 404, body = [] \<rparr>
   \<and> connectionDatabase
        (state (DestroyStreamSession
                  (stub (Failed []) (Failed []) (Failed []) (Succeeded ()))
                  one_session (post (Some ''T1'')))) ''T1'' = None
   \<and> reply (DestroyStreamSession
              (stub (Failed []) (Failed []) (Failed []) (Succeeded ()))
              one_session (post (Some ''T1'')))
       = \<lparr> status = 200, body = [] \<rparr>"
  by (simp add: ReconnectStreamSession_def DestroyStreamSession_def stub_def one_session_def
      session1_def post_def lookup_def delete_property_def property_def truthy_def expired_def shipped_def
      json_member_def object_prototype_keys_def)

text \<open>
  C2, amended. For a token that is no key of the registry, Poll Signal answers 404
  (\<^verbatim>\<open>Connection data not found\<close>), and so do Reconnect and Destroy (with an empty body) when
  the token is not the name of a member of \<^verbatim>\<open>Object.prototype\<close>; none of them calls the
  provider or changes the state. For a non-empty token whose entry is older than the timeout, Poll
  Signal answers 404 without a provider call and with the state unchanged; the body is
  \<^verbatim>\<open>Connection token expired\<close> when the entry has a stream group id and
  \<^verbatim>\<open>Connection data not found\<close> otherwise. Reconnect and Destroy take no account of the age
  of an entry: for every entry in the registry under a non-empty token they call the
  provider and answer by its outcome alone, and Destroy removes the entry when it succeeds.
\<close>

theorem unknown_or_expired_token:
  "(connectionDatabase s token = None \<longrightarrow>
      GetSignalResponse e p now later s (req\<lparr>Token := Some token\<rparr>)
        = \<lparr> reply = \<lparr> status = 404,
                       body = [(''error'', ''Connection data not found''),
                               (''message'', ''Invalid token or missing stream group ID'')] \<rparr>,
            state = s, calls = [] \<rparr>)
   \<and> (connectionDatabase s token = None \<and> token \<notin> set object_prototype_keys \<longrightarrow>
      ReconnectStreamSession p s (req\<lparr>Token := Some token\<rparr>)
        = \<lparr> reply = \<lparr> status = 404, body = [] \<rparr>, state = s, calls = [] \<rparr>
    \<and> DestroyStreamSession p s (req\<lparr>Token := Some token\<rparr>)
        = \<lparr> reply = \<lparr> status = 404, body = [] \<rparr>, state = s, calls = [] \<rparr>)
   \<and> (connectionDatabase s token = Some c \<and> token \<noteq> [] \<and> expired e now c \<longrightarrow>
      GetSignalResponse e p now later s (req\<lparr>Token := Some token\<rparr>)
        = \<lparr> reply =
              (if truthy (StreamGroupId c) then
                 \<lparr> status = 404,
                   body = [(''error'', ''Connection token expired''),
                           (''correlationId'', correlationId req)] \<rparr>
               else
                 \<lparr> status = 404,
                   body = [(''error'', ''Connection data not found''),
                           (''message'', ''Invalid token or missing stream group ID'')] \<rparr>),
            state = s, calls = [] \<rparr>)
   \<and> (connectionDatabase s token = Some c \<and> token \<noteq> [] \<longrightarrow>
      ReconnectStreamSession p s (req\<lparr>Token := Some token\<rparr>)
        = \<lparr> reply =
              (case createStreamSessionConnection p
                      \<lparr> Identifier = StreamGroupId c,
                        StreamSessionIdentifier = StreamSessionArn c,
                        rq_SignalRequest = SignalRequest req \<rparr> of
                 Failed message \<Rightarrow> \<lparr> status = 502, body = [] \<rparr>
               | Succeeded None \<Rightarrow> \<lparr> status = 200, body = [] \<rparr>
               | Succeeded (Some answer) \<Rightarrow>
                   \<lparr> status = 200, body = [(''SignalResponse'', answer)] \<rparr>),
            state = s,
            calls = [CreateStreamSessionConnection
                       \<lparr> Identifier = StreamGroupId c,
                         StreamSessionIdentifier = StreamSessionArn c,
                         rq_SignalRequest = SignalRequest req \<rparr>] \<rparr>
    \<and> DestroyStreamSession p s (req\<lparr>Token := Some token\<rparr>)
        = (case terminateStreamSession p
                  \<lparr> Identifier = StreamGroupId c,
                    StreamSessionIdentifier = StreamSessionArn c \<rparr> of
             Failed message \<Rightarrow>
               \<lparr> reply = \<lparr> status = 502, body = [] \<rparr>, state = s,
                 calls = [TerminateStreamSession
                            \<lparr> Identifier = StreamGroupId c,
                              StreamSessionIdentifier = StreamSessionArn c \<rparr>] \<rparr>
           | Succeeded removed \<Rightarrow>
               \<lparr> reply = \<lparr> status = 200, body = [] \<rparr>,
                 state = s\<lparr> connectionDatabase := (connectionDatabase s)(token := None) \<rparr>,
                 calls = [TerminateStreamSession
                            \<lparr> Identifier = StreamGroupId c,
                              StreamSessionIdentifier = StreamSessionArn c \<rparr>] \<rparr>))"
proof (intro conjI impI)
  assume a: "connectionDatabase s token = None"
  show "GetSignalResponse e p now later s (req\<lparr>Token := Some token\<rparr>)
        = \<lparr> reply = \<lparr> status = 404,
                       body = [(''error'', ''Connection data not found''),
                               (''message'', ''Invalid token or missing stream group ID'')] \<rparr>,
            state = s, calls = [] \<rparr>"
    using a
    by (simp add: GetSignalResponse_def lookup_def property_def connection_not_found_def)
next
  assume a: "connectionDatabase s token = None \<and> token \<notin> set object_prototype_keys"
  have l: "lookup (connectionDatabase s) (Some token) = Falsy"
    using a by (simp add: lookup_def property_def)
  show "ReconnectStreamSession p s (req\<lparr>Token := Some token\<rparr>)
        = \<lparr> reply = \<lparr> status = 404, body = [] \<rparr>, state = s, calls = [] \<rparr>"
    by (simp add: ReconnectStreamSession_def l)
  show "DestroyStreamSession p s (req\<lparr>Token := Some token\<rparr>)
        = \<lparr> reply = \<lparr> status = 404, body = [] \<rparr>, state = s, calls = [] \<rparr>"
    by (simp add: DestroyStreamSession_def l)
next
  assume b: "connectionDatabase s token = Some c \<and> token \<noteq> [] \<and> expired e now c"
  then have l: "lookup (connectionDatabase s) (Some token) = Entry c"
    by (simp add: lookup_entry)
  show "GetSignalResponse e p now later s (req\<lparr>Token := Some token\<rparr>)
        = \<lparr> reply =
              (if truthy (StreamGroupId c) then
                 \<lparr> status = 404,
                   body = [(''error'', ''Connection token expired''),
                           (''correlationId'', correlationId req)] \<rparr>
               else
                 \<lparr> status = 404,
                   body = [(''error'', ''Connection data not found''),
                           (''message'', ''Invalid token or missing stream group ID'')] \<rparr>),
            state = s, calls = [] \<rparr>"
    using b by (simp add: GetSignalResponse_def l connection_not_found_def)
next
  assume b: "connectionDatabase s token = Some c \<and> token \<noteq> []"
  then have l: "lookup (connectionDatabase s) (Some token) = Entry c"
    by (simp add: lookup_entry)
  show "ReconnectStreamSession p s (req\<lparr>Token := Some token\<rparr>)
        = \<lparr> reply =
              (case createStreamSessionConnection p
                      \<lparr> Identifier = StreamGroupId c,
                        StreamSessionIdentifier = StreamSessionArn c,
                        rq_SignalRequest = SignalRequest req \<rparr> of
                 Failed message \<Rightarrow> \<lparr> status = 502, body = [] \<rparr>
               | Succeeded None \<Rightarrow> \<lparr> status = 200, body = [] \<rparr>
               | Succeeded (Some answer) \<Rightarrow>
                   \<lparr> status = 200, body = [(''SignalResponse'', answer)] \<rparr>),
            state = s,
            calls = [CreateStreamSessionConnection
                       \<lparr> Identifier = StreamGroupId c,
                         StreamSessionIdentifier = StreamSessionArn c,
                         rq_SignalRequest = SignalRequest req \<rparr>] \<rparr>"
    by (simp add: ReconnectStreamSession_def l Let_def generalErrorStatusCode_def
        json_member_def split: outcome.split option.split)
  show "DestroyStreamSession p s (req\<lparr>Token := Some token\<rparr>)
        = (case terminateStreamSession p
                  \<lparr> Identifier = StreamGroupId c,
                    StreamSessionIdentifier = StreamSessionArn c \<rparr> of
             Failed message \<Rightarrow>
               \<lparr> reply = \<lparr> status = 502, body = [] \<rparr>, state = s,
                 calls = [TerminateStreamSession
                            \<lparr> Identifier = StreamGroupId c,
                              StreamSessionIdentifier = StreamSessionArn c \<rparr>] \<rparr>
           | Succeeded removed \<Rightarrow>
               \<lparr> reply = \<lparr> status = 200, body = [] \<rparr>,
                 state = s\<lparr> connectionDatabase := (connectionDatabase s)(token := None) \<rparr>,
                 calls = [TerminateStreamSession
                            \<lparr> Identifier = StreamGroupId c,
                              StreamSessionIdentifier = StreamSessionArn c \<rparr>] \<rparr>)"
    by (simp add: DestroyStreamSession_def l Let_def generalErrorStatusCode_def
        delete_property_def split: outcome.split)
qed

text \<open>
  Witness for C2, amended: an unknown token and an expired one at time 700000, and an
  expired entry without stream group id.
\<close>

theorem unknown_or_expired_token_witness:
  "connectionDatabase one_session ''T0'' = None \<and> ''T0'' \<notin> set object_prototype_keys
   \<and> GetSignalResponse shipped (stub (Failed []) (Failed []) (Failed []) (Failed []))
        700000 700001 one_session (post (Some ''T0''))
       = \<lparr> reply = \<lparr> status = 404,
                      body = [(''error'', ''Connection data not found''),
                              (''message'', ''Invalid token or missing stream group ID'')] \<rparr>,
           state = one_session, calls = [] \<rparr>
   \<and> ReconnectStreamSession (stub (Failed []) (Failed []) (Failed []) (Failed []))
        one_session (post (Some ''T0''))
       = \<lparr> reply = \<lparr> status = 404, body = [] \<rparr>, state = one_session, calls = [] \<rparr>
   \<and> DestroyStreamSession (stub (Failed []) (Failed []) (Failed []) (Failed []))
        one_session (post (Some ''T0''))
       = \<lparr> reply = \<lparr> status = 404, body = [] \<rparr>, state = one_session, calls = [] \<rparr>
   \<and> connectionDatabase one_session ''T1'' = Some session1 \<and> expired shipped 700000 session1
   \<and> GetSignalResponse shipped (stub (Failed []) (Failed []) (Failed []) (Failed []))
        700000 700001 one_session (post (Some ''T1''))
       = \<lparr> reply = \<lparr> status = 404,
                      body = [(''error'', ''Connection token expired''),
                              (''correlationId'', ''c-1'')] \<rparr>,
           state = one_session, calls = [] \<rparr>
   \<and> ReconnectStreamSession (stub (Failed []) (Failed []) (Failed []) (Failed []))
        one_session (post (Some ''T1''))
       = \<lparr> reply = \<lparr> status = 502, body = [] \<rparr>, state = one_session,
           calls = [CreateStreamSessionConnection
                      \<lparr> Identifier = Some ''sg-1'', StreamSessionIdentifier = Some ''arn:1'',
                        rq_SignalRequest = None \<rparr>] \<rparr>
   \<and> reply (GetSignalResponse shipped (stub (Failed []) (Failed []) (Failed []) (Failed []))
        700000 700001
        \<lparr> connectionDatabase = [''T3'' \<mapsto> session1\<lparr> StreamGroupId := None \<rparr>], timers = [] \<rparr>
        (post (Some ''T3'')))
       = \<lparr> status = 404,
           body = [(''error'', ''Connection data not found''),
                   (''message'', ''Invalid token or missing stream group ID'')] \<rparr>"
  using
    unknown_or_expired_token [of one_session "''T0''" shipped
      "stub (Failed []) (Failed []) (Failed []) (Failed [])" 700000 700001 "post (Some ''T0'')"]
    unknown_or_expired_token [of one_session "''T1''" shipped
      "stub (Failed []) (Failed []) (Failed []) (Failed [])" 700000 700001 "post (Some ''T1'')"
      session1]
    unknown_or_expired_token
      [of "\<lparr> connectionDatabase = [''T3'' \<mapsto> session1\<lparr> StreamGroupId := None \<rparr>],
             timers = [] \<rparr>"
       "''T3''" shipped
      "stub (Failed []) (Failed []) (Failed []) (Failed [])" 700000 700001 "post (Some ''T3'')"
      "session1\<lparr> StreamGroupId := None \<rparr>"]
  by (simp add: one_session_def session1_def shipped_def post_def expired_def
      object_prototype_keys_def truthy_def stub_def)

subsection \<open>Destroy and Reconnect\<close>

text \<open>
  C3, at the input where the code departs from it: the token \<^verbatim>\<open>constructor\<close> was never issued,
  yet \<^verbatim>\<open>connectionDatabase['constructor']\<close> is the inherited \<^verbatim>\<open>Object\<close> function, so Destroy takes
  the token as known, calls the provider's terminate operation without identifiers and does
  not answer 404, whatever the provider does; with a provider that accepts the call, two
  Destroy requests in sequence both succeed.
\<close>

theorem destroy_inherited_key:
  "connectionDatabase no_sessions ''constructor'' = None
   \<and> calls (DestroyStreamSession p no_sessions (post (Some ''constructor'')))
       = [TerminateStreamSession \<lparr> Identifier = None, StreamSessionIdentifier = None \<rparr>]
   \<and> status (reply (DestroyStreamSession p no_sessions (post (Some ''constructor'')))) \<noteq> 404
   \<and> reply (DestroyStreamSession (stub (Failed []) (Failed []) (Failed []) (Succeeded ()))
              (state (DestroyStreamSession (stub (Failed []) (Failed []) (Failed []) (Succeeded ()))
                        no_sessions (post (Some ''constructor''))))
              (post (Some ''constructor'')))
       = \<lparr> status = 200, body = [] \<rparr>"
  by (simp add: DestroyStreamSession_def no_sessions_def post_def lookup_def delete_property_def property_def
      truthy_def object_prototype_keys_def generalErrorStatusCode_def stub_def Let_def
      split: outcome.split)

text \<open>
  C5, at the input where the code departs from it: for the same never-issued token Reconnect
  calls the provider's create-connection operation without identifiers and does not answer
  404, whatever the provider does.
\<close>

theorem reconnect_inherited_key:
  "connectionDatabase no_sessions ''constructor'' = None
   \<and> calls (ReconnectStreamSession p no_sessions
              ((post (Some ''constructor''))\<lparr> SignalRequest := Some ''OFFER'' \<rparr>))
       = [CreateStreamSessionConnection
            \<lparr> Identifier = None, StreamSessionIdentifier = None,
              rq_SignalRequest = Some ''OFFER'' \<rparr>]
   \<and> status (reply (ReconnectStreamSession p no_sessions
                      ((post (Some ''constructor''))\<lparr> SignalRequest := Some ''OFFER'' \<rparr>))) \<noteq> 404"
  by (simp add: ReconnectStreamSession_def no_sessions_def post_def lookup_def property_def
      truthy_def object_prototype_keys_def generalErrorStatusCode_def Let_def
      split: outcome.split)

text \<open>
  For a token that is a key of the registry, Destroy and Reconnect do what their contracts
  say: Destroy calls terminate for the stored session and removes the entry exactly when
  the provider succeeds; a second Destroy then answers 404; Reconnect calls create-connection
  for the stored session with the new offer, returns the provider's answer and leaves the
  state as it was.
\<close>

lemma destroy_issued_token:
  assumes "connectionDatabase s token = Some c" and "token \<noteq> []"
  shows "DestroyStreamSession p s (req\<lparr>Token := Some token\<rparr>)
           = (case terminateStreamSession p \<lparr> Identifier = StreamGroupId c,
                                               StreamSessionIdentifier = StreamSessionArn c \<rparr> of
                Failed message \<Rightarrow>
                  \<lparr> reply = \<lparr> status = 502, body = [] \<rparr>, state = s,
                    calls = [TerminateStreamSession \<lparr> Identifier = StreamGroupId c,
                               StreamSessionIdentifier = StreamSessionArn c \<rparr>] \<rparr>
              | Succeeded data \<Rightarrow>
                  \<lparr> reply = \<lparr> status = 200, body = [] \<rparr>,
                    state = s\<lparr> connectionDatabase := (connectionDatabase s)(token := None) \<rparr>,
                    calls = [TerminateStreamSession \<lparr> Identifier = StreamGroupId c,
                               StreamSessionIdentifier = StreamSessionArn c \<rparr>] \<rparr>)"
  using assms
  by (simp add: DestroyStreamSession_def lookup_entry delete_property_def Let_def generalErrorStatusCode_def
      split: outcome.split)

lemma destroy_twice:
  assumes "connectionDatabase s token = Some c" and "token \<noteq> []"
    and "token \<notin> set object_prototype_keys"
    and "status (reply (DestroyStreamSession p s (req\<lparr>Token := Some token\<rparr>))) = 200"
  shows "DestroyStreamSession p' (state (DestroyStreamSession p s (req\<lparr>Token := Some token\<rparr>)))
           (req'\<lparr>Token := Some token\<rparr>)
         = \<lparr> reply = \<lparr> status = 404, body = [] \<rparr>,
             state = state (DestroyStreamSession p s (req\<lparr>Token := Some token\<rparr>)),
             calls = [] \<rparr>"
proof -
  let ?r = "DestroyStreamSession p s (req\<lparr>Token := Some token\<rparr>)"
  have "connectionDatabase (state ?r) token = None"
    using assms
    by (simp add: destroy_issued_token split: outcome.splits)
  then have "lookup (connectionDatabase (state ?r)) (Some token) = Falsy"
    using assms(3) by (rule lookup_unknown)
  then show ?thesis
    by (simp add: DestroyStreamSession_def)
qed

lemma reconnect_issued_token:
  assumes "connectionDatabase s token = Some c" and "token \<noteq> []"
  shows "ReconnectStreamSession p s (req\<lparr>Token := Some token\<rparr>)
           = (case createStreamSessionConnection p
                     \<lparr> Identifier = StreamGroupId c,
                       StreamSessionIdentifier = StreamSessionArn c,
                       rq_SignalRequest = SignalRequest req \<rparr> of
                Failed message \<Rightarrow>
                  \<lparr> reply = \<lparr> status = 502, body = [] \<rparr>, state = s,
                    calls = [CreateStreamSessionConnection
                               \<lparr> Identifier = StreamGroupId c,
                                 StreamSessionIdentifier = StreamSessionArn c,
                                 rq_SignalRequest = SignalRequest req \<rparr>] \<rparr>
              | Succeeded answer \<Rightarrow>
                  \<lparr> reply = \<lparr> status = 200, body = json_member ''SignalResponse'' answer \<rparr>,
                    state = s,
                    calls = [CreateStreamSessionConnection
                               \<lparr> Identifier = StreamGroupId c,
                                 StreamSessionIdentifier = StreamSessionArn c,
                                 rq_SignalRequest = SignalRequest req \<rparr>] \<rparr>)"
  using assms
  by (simp add: ReconnectStreamSession_def lookup_entry Let_def generalErrorStatusCode_def
      split: outcome.split)

section \<open>Properties of the browser flows\<close>

subsection \<open>Runs and the poll loop\<close>

lemma released_no_error_panel:
  "no_error_panel t \<Longrightarrow> released_before_error closed t"
  by (induction closed t rule: released_before_error.induct) auto

lemma released_append_handler:
  "no_error_panel t \<Longrightarrow>
     released_before_error closed (t @ LoadingStop # Close # Panel name # u)
       = released_before_error True u"
  by (induction closed t rule: released_before_error.induct) auto

lemma no_error_panel_append:
  "no_error_panel (t @ u) = (no_error_panel t \<and> no_error_panel u)"
  by (induction t rule: no_error_panel.induct) auto

lemma poll_loop_no_error_panel:
  "poll_loop as t = Some (c, t') \<Longrightarrow> no_error_panel t \<Longrightarrow> no_error_panel t'"
  by (induction as t rule: poll_loop.induct)
     (auto simp add: no_error_panel_append split: if_splits)

lemma start_try_no_error_panel:
  "start_try b = Some (c, t) \<Longrightarrow> no_error_panel t"
  by (auto simp add: start_try_def Let_def no_error_panel_append error_panel_def
      split: if_splits option.splits completion.splits prod.splits
      dest!: poll_loop_no_error_panel)

lemma reconnect_try_no_error_panel:
  "reconnect_try b = (c, t) \<Longrightarrow> no_error_panel t"
  by (auto simp add: reconnect_try_def error_panel_def split: if_splits)

lemma poll_loop_empty_answers:
  "poll_loop (replicate k (Answered (Some [])) @ rest) t
     = poll_loop rest (t @ replicate k (Post ''/api/GetSignalResponse''))"
proof (induction k arbitrary: t)
  case 0
  show ?case by simp
next
  case (Suc k)
  show ?case by (simp add: Suc.IH)
qed

lemma start_run_released:
  "appStartStreaming b = Some (c, run) \<Longrightarrow> released_before_error False run"
proof (cases "start_try b")
  case None
  assume "appStartStreaming b = Some (c, run)"
  with None show ?thesis by (simp add: appStartStreaming_def)
next
  case (Some ct)
  assume r: "appStartStreaming b = Some (c, run)"
  obtain c' t where ct: "ct = (c', t)" by (cases ct)
  have ne: "no_error_panel t" using Some ct start_try_no_error_panel by simp
  show ?thesis
  proof (cases c')
    case Thrown
    show ?thesis
    proof (cases "sdk_throws b ClosePeer")
      case True
      with r Some ct Thrown have "run = t @ [LoadingStop] @ (if webkit b then [AudioRemove] else [])"
        by (auto simp add: appStartStreaming_def catch_block_def)
      with ne show ?thesis
        by (simp add: released_no_error_panel no_error_panel_append)
    next
      case False
      with r Some ct Thrown
      have "run = t @ LoadingStop # Close # Panel ''appError''
                    # (if webkit b then [AudioRemove] else [])"
        by (auto simp add: appStartStreaming_def catch_block_def)
      with ne show ?thesis
        by (simp add: released_append_handler)
    qed
  next
    case Returned
    with r Some ct ne show ?thesis
      by (auto simp add: appStartStreaming_def released_no_error_panel)
  next
    case Completed
    with r Some ct ne show ?thesis
      by (auto simp add: appStartStreaming_def no_error_panel_append
          intro!: released_no_error_panel)
  qed
qed

lemma reconnect_run_released:
  "released_before_error False (snd (appReconnectStreaming b))"
proof -
  obtain c t where ct: "reconnect_try b = (c, t)" by (cases "reconnect_try b")
  have ne: "no_error_panel t" using ct by (rule reconnect_try_no_error_panel)
  show ?thesis
  proof (cases "throws b ReadToken")
    case True
    then show ?thesis by (simp add: appReconnectStreaming_def)
  next
    case False
    show ?thesis
    proof (cases "c = Thrown")
      case no: False
      with ct False ne show ?thesis
        by (cases c) (simp_all add: appReconnectStreaming_def released_no_error_panel)
    next
      case yes: True
      show ?thesis
      proof (cases "sdk_throws b ClosePeer")
        case True
        with ct False yes have "snd (appReconnectStreaming b) = t @ [LoadingStop]"
          by (simp add: appReconnectStreaming_def catch_block_def)
        with ne show ?thesis
          by (simp add: released_no_error_panel no_error_panel_append)
      next
        case nc: False
        with ct False yes
        have "snd (appReconnectStreaming b)
                = t @ LoadingStop # Close # Panel ''appReconnectError'' # []"
          by (simp add: appReconnectStreaming_def catch_block_def)
        with ne show ?thesis
          by (simp add: released_append_handler)
      qed
    qed
  qed
qed

lemma poll_loop_rejected:
  "poll_loop (replicate k (Answered (Some [])) @ Rejected # rest) t
     = Some (Thrown, t @ replicate (Suc k) (Post ''/api/GetSignalResponse''))"
  by (simp add: poll_loop_empty_answers replicate_append_same)

lemma poll_loop_missing:
  "poll_loop (replicate k (Answered (Some [])) @ Answered None # rest) t
     = Some (Thrown, t @ replicate (Suc k) (Post ''/api/GetSignalResponse''))"
  by (simp add: poll_loop_empty_answers replicate_append_same)

lemma poll_loop_answered:
  "answer \<noteq> [] \<Longrightarrow>
   poll_loop (replicate k (Answered (Some [])) @ Answered (Some answer) # rest) t
     = Some (Completed, t @ replicate (Suc k) (Post ''/api/GetSignalResponse''))"
  by (simp add: poll_loop_empty_answers replicate_append_same)

lemma poll_loop_silent:
  "poll_loop (replicate k (Answered (Some []))) t = None"
  using poll_loop_empty_answers [of k "[]" t] by simp

subsection \<open>The error path\<close>

text \<open>
  Counterexample to C8 as stated: when the layout code at the end of the \<^verbatim>\<open>try\<close> block of
  \<^verbatim>\<open>appStartStreaming\<close> throws, the streaming panel and the reconnect links have already been
  shown; the peer is closed and the error panel shown only after this display of success.
\<close>

theorem layout_error_after_streaming_panel_counterexample:
  "appStartStreaming (page [Layout] [Answered (Some ''ANSWER'')])
     = Some (Completed,
             [Panel ''appConnecting'', LoadingStart, SignalRequestGenerated,
              Post ''/api/CreateStreamSession'', Post ''/api/GetSignalResponse'',
              SignalResponseProcessed, LoadingStop, QueryParams, ReconnectLinks True,
              Panel ''appStreaming'', LoadingStop, Close, Panel ''appError''])
   \<and> throws (page [Layout] [Answered (Some ''ANSWER'')]) Layout"
  by (simp add: appStartStreaming_def start_try_def catch_block_def sdk_throws_def page_def)

text \<open>
  C8, amended. In \<^verbatim>\<open>appStartStreaming\<close> (on a page in landscape) and in
  \<^verbatim>\<open>appReconnectStreaming\<close> (once the token has been read), when the peer object exists and
  its \<^verbatim>\<open>close()\<close> returns: whichever statement of the \<^verbatim>\<open>try\<close> block is the first to throw
  (the lookup of the metrics button, \<^verbatim>\<open>generateSignalRequest\<close>, the reading of the setup
  fields, the Create or Reconnect request, a poll that is rejected or carries no
  \<^verbatim>\<open>SignalResponse\<close> after any number of empty answers, \<^verbatim>\<open>processSignalResponse\<close>, the setting
  of the query parameters, the layout code), the function returns after stopping the
  loading screen, closing the peer and then showing the error panel, in this order; the
  error panel is the last panel shown, and only the removal of the pre-stream audio element
  follows it. A throw in the layout code comes after the streaming panel and the reconnect
  links were shown. While every poll answer is empty the start flow is still polling. In
  every run of either function, whatever throws, an error panel is shown only while the
  peer is closed.
\<close>

theorem error_path_releases_peer_first:
  fixes b :: browser and k :: nat
  defines "sent \<equiv> (if webkit b then [AudioPlay] else []) @ [Panel ''appConnecting'']"
    and "posted \<equiv> (if webkit b then [AudioPlay] else [])
                    @ [Panel ''appConnecting'', LoadingStart, SignalRequestGenerated,
                       Post ''/api/CreateStreamSession'']"
    and "polls \<equiv> replicate (Suc k) (Post ''/api/GetSignalResponse'')"
    and "handler \<equiv> [LoadingStop, Close, Panel ''appError'']
                     @ (if webkit b then [AudioRemove] else [])"
    and "closes \<equiv> peer b \<and> \<not> throws b ClosePeer"
    and "polling \<equiv> landscape b \<and> peer b \<and> \<not> throws b ClosePeer
                     \<and> \<not> throws b MetricsButton \<and> \<not> throws b GenerateSignalRequest
                     \<and> \<not> throws b SetupFields \<and> \<not> throws b PostCreate"
    and "silent \<equiv> replicate k (Answered (Some []))"
  shows
    "(landscape b \<and> closes \<and> throws b MetricsButton \<longrightarrow>
        appStartStreaming b = Some (Completed, sent @ handler))
     \<and> (landscape b \<and> closes \<and> \<not> throws b MetricsButton \<and> throws b GenerateSignalRequest \<longrightarrow>
        appStartStreaming b = Some (Completed, sent @ [LoadingStart] @ handler))
     \<and> (landscape b \<and> closes \<and> \<not> throws b MetricsButton \<and> \<not> throws b GenerateSignalRequest
          \<and> throws b SetupFields \<longrightarrow>
        appStartStreaming b
          = Some (Completed, sent @ [LoadingStart, SignalRequestGenerated] @ handler))
     \<and> (landscape b \<and> closes \<and> \<not> throws b MetricsButton \<and> \<not> throws b GenerateSignalRequest
          \<and> \<not> throws b SetupFields \<and> throws b PostCreate \<longrightarrow>
        appStartStreaming b = Some (Completed, posted @ handler))
     \<and> (polling \<and> answers b = silent @ Rejected # rest \<longrightarrow>
        appStartStreaming b = Some (Completed, posted @ polls @ handler))
     \<and> (polling \<and> answers b = silent @ Answered None # rest \<longrightarrow>
        appStartStreaming b = Some (Completed, posted @ polls @ handler))
     \<and> (polling \<and> answers b = silent @ Answered (Some answer) # rest \<and> answer \<noteq> []
          \<and> throws b ProcessSignalResponse \<longrightarrow>
        appStartStreaming b = Some (Completed, posted @ polls @ handler))
     \<and> (polling \<and> answers b = silent @ Answered (Some answer) # rest \<and> answer \<noteq> []
          \<and> \<not> throws b ProcessSignalResponse \<and> throws b SetQueryParams \<longrightarrow>
        appStartStreaming b
          = Some (Completed, posted @ polls @ [SignalResponseProcessed, LoadingStop] @ handler))
     \<and> (polling \<and> answers b = silent @ Answered (Some answer) # rest \<and> answer \<noteq> []
          \<and> \<not> throws b ProcessSignalResponse \<and> \<not> throws b SetQueryParams
          \<and> throws b Layout \<longrightarrow>
        appStartStreaming b
          = Some (Completed,
                  posted @ polls
                    @ [SignalResponseProcessed, LoadingStop, QueryParams, ReconnectLinks True,
                       Panel ''appStreaming'']
                    @ handler))
     \<and> (polling \<and> answers b = silent \<longrightarrow> appStartStreaming b = None)
     \<and> (appStartStreaming b = Some (c, run) \<longrightarrow> released_before_error False run)
     \<and> (closes \<and> \<not> throws b ReadToken \<and> throws b GenerateSignalRequest \<longrightarrow>
        appReconnectStreaming b
          = (Completed,
             [Panel ''appConnecting'', LoadingStart,
              LoadingStop, Close, Panel ''appReconnectError'']))
     \<and> (closes \<and> \<not> throws b ReadToken \<and> \<not> throws b GenerateSignalRequest
          \<and> throws b PostReconnect \<longrightarrow>
        appReconnectStreaming b
          = (Completed,
             [Panel ''appConnecting'', LoadingStart, SignalRequestGenerated,
              Post ''/api/ReconnectStreamSession'',
              LoadingStop, Close, Panel ''appReconnectError'']))
     \<and> (closes \<and> \<not> throws b ReadToken \<and> \<not> throws b GenerateSignalRequest
          \<and> \<not> throws b PostReconnect \<and> throws b ProcessSignalResponse \<longrightarrow>
        appReconnectStreaming b
          = (Completed,
             [Panel ''appConnecting'', LoadingStart, SignalRequestGenerated,
              Post ''/api/ReconnectStreamSession'',
              LoadingStop, Close, Panel ''appReconnectError'']))
     \<and> released_before_error False (snd (appReconnectStreaming b))"
proof -
  note defs = appStartStreaming_def start_try_def catch_block_def sdk_throws_def Let_def
  note rdefs = appReconnectStreaming_def reconnect_try_def catch_block_def sdk_throws_def
  show ?thesis
    unfolding sent_def posted_def handler_def closes_def polling_def silent_def polls_def
    apply (intro conjI impI)
    subgoal by (simp add: defs)
    subgoal by (simp add: defs)
    subgoal by (simp add: defs)
    subgoal by (simp add: defs)
    subgoal by (simp add: defs poll_loop_rejected del: replicate_Suc)
    subgoal by (simp add: defs poll_loop_missing del: replicate_Suc)
    subgoal by (simp add: defs poll_loop_answered del: replicate_Suc)
    subgoal by (simp add: defs poll_loop_answered del: replicate_Suc)
    subgoal by (simp add: defs poll_loop_answered del: replicate_Suc)
    subgoal by (simp add: defs poll_loop_silent)
    subgoal using start_run_released by blast
    subgoal by (simp add: rdefs)
    subgoal by (simp add: rdefs)
    subgoal by (simp add: rdefs)
    subgoal by (rule reconnect_run_released)
    done
qed

text \<open>
  Witness for C8, amended: pages on which the Create request fails, the second poll is
  rejected, the query parameters cannot be set, the only poll answer is empty, and the
  Reconnect request fails.
\<close>

theorem error_path_releases_peer_first_witness:
  "appStartStreaming (page [PostCreate] [])
     = Some (Completed,
             [Panel ''appConnecting'', LoadingStart, SignalRequestGenerated,
              Post ''/api/CreateStreamSession'', LoadingStop, Close, Panel ''appError''])
   \<and> appStartStreaming (page [] [Answered (Some ''''), Rejected])
     = Some (Completed,
             [Panel ''appConnecting'', LoadingStart, SignalRequestGenerated,
              Post ''/api/CreateStreamSession'', Post ''/api/GetSignalResponse'',
              Post ''/api/GetSignalResponse'', LoadingStop, Close, Panel ''appError''])
   \<and> appStartStreaming (page [SetQueryParams] [Answered (Some ''ANSWER'')])
     = Some (Completed,
             [Panel ''appConnecting'', LoadingStart, SignalRequestGenerated,
              Post ''/api/CreateStreamSession'', Post ''/api/GetSignalResponse'',
              SignalResponseProcessed, LoadingStop, LoadingStop, Close, Panel ''appError''])
   \<and> appStartStreaming (page [] [Answered (Some '''')]) = None
   \<and> appReconnectStreaming (page [PostReconnect] [])
     = (Completed,
        [Panel ''appConnecting'', LoadingStart, SignalRequestGenerated,
         Post ''/api/ReconnectStreamSession'', LoadingStop, Close,
         Panel ''appReconnectError''])"
  using
    error_path_releases_peer_first [where b = "page [PostCreate] []" and k = 0]
    error_path_releases_peer_first [where b = "page [] [Answered (Some ''''), Rejected]"
      and k = 1 and rest = "[]"]
    error_path_releases_peer_first
      [where b = "page [SetQueryParams] [Answered (Some ''ANSWER'')]"
       and k = 0 and rest = "[]" and answer = "''ANSWER''"]
    error_path_releases_peer_first [where b = "page [] [Answered (Some '''')]" and k = 1]
    error_path_releases_peer_first [where b = "page [PostReconnect] []" and k = 0]
  by (simp add: page_def)

text \<open>
  Outside the amended claim: when \<^verbatim>\<open>window.myGameLiftStreams\<close> is \<^verbatim>\<open>null\<close>, the unguarded
  \<^verbatim>\<open>close()\<close> of the \<^verbatim>\<open>catch\<close> block throws in its turn and no error panel is shown (the
  same call is guarded in \<^verbatim>\<open>endStreamSession\<close>); an exception while the token is read
  reaches no \<^verbatim>\<open>catch\<close> block.
\<close>

lemma close_on_missing_peer:
  "appStartStreaming ((page [] [])\<lparr> peer := False \<rparr>)
     = Some (Thrown, [Panel ''appConnecting'', LoadingStart, LoadingStop])
   \<and> appReconnectStreaming ((page [] [])\<lparr> peer := False \<rparr>)
     = (Thrown, [Panel ''appConnecting'', LoadingStart, LoadingStop])
   \<and> appReconnectStreaming (page [ReadToken] []) = (Thrown, [])"
  by (simp add: appStartStreaming_def start_try_def appReconnectStreaming_def
      reconnect_try_def catch_block_def sdk_throws_def page_def)

end
